theory Spec2Isabelle
  imports Complex_Main "HOL-Library.Sublist" "HOL-Library.AList"
begin

section \<open>Strings and values of the runtime\<close>

text \<open>
  The bridge \<^verbatim>\<open>claude-bridge/channel-manager.js\<close> is a Node script. A string of the
  script is modelled as a \<^typ>\<open>string\<close>, one \<^typ>\<open>char\<close> per code unit, which covers
  the code units below 256; the fixed texts of the script that lie outside that range are
  spelled in UTF-8. The string methods the script calls are written out below.
\<close>

definition lowerChar :: "char \<Rightarrow> char" where
  "lowerChar c =
     (let n = (of_char c :: nat)
      in if (65 \<le> n \<and> n \<le> 90) \<or> (192 \<le> n \<and> n \<le> 222 \<and> n \<noteq> 215)
         then char_of (n + 32) else c)"

definition toLowerCase :: "string \<Rightarrow> string" where
  "toLowerCase s = map lowerChar s"

fun startsWith :: "string \<Rightarrow> string \<Rightarrow> bool" where
  "startsWith s [] = True"
| "startsWith [] (p # ps) = False"
| "startsWith (c # s) (p # ps) = (c = p \<and> startsWith s ps)"

text \<open>\<^verbatim>\<open>s.includes(p)\<close>: some position of \<open>s\<close> starts with \<open>p\<close>.\<close>

fun js_includes :: "string \<Rightarrow> string \<Rightarrow> bool" where
  "js_includes [] p = (p = [])"
| "js_includes (c # s) p = (startsWith (c # s) p \<or> js_includes s p)"

text \<open>White space and line terminators that \<^verbatim>\<open>trim()\<close> removes, below 256.\<close>

definition isWhiteSpace :: "char \<Rightarrow> bool" where
  "isWhiteSpace c = ((of_char c :: nat) \<in> {9, 10, 11, 12, 13, 32, 160})"

definition trim :: "string \<Rightarrow> string" where
  "trim s = rev (dropWhile isWhiteSpace (rev (dropWhile isWhiteSpace s)))"

text \<open>\<^verbatim>\<open>s.split('\n')\<close>: the segments between line feeds, at least one.\<close>

fun splitLines :: "string \<Rightarrow> string list" where
  "splitLines [] = [[]]"
| "splitLines (c # s) =
     (if c = CHR 0x0A then [] # splitLines s
      else (case splitLines s of l # ls \<Rightarrow> (c # l) # ls | [] \<Rightarrow> [[c]]))"

definition isAlphaNumeric :: "char \<Rightarrow> bool" where
  "isAlphaNumeric c =
     (let n = (of_char c :: nat)
      in (97 \<le> n \<and> n \<le> 122) \<or> (65 \<le> n \<and> n \<le> 90) \<or> (48 \<le> n \<and> n \<le> 57))"

text \<open>\<^verbatim>\<open>s.replace(/[^a-zA-Z0-9]/g, '-')\<close>\<close>

definition replaceNonAlphaNumeric :: "string \<Rightarrow> string" where
  "replaceNonAlphaNumeric s = map (\<lambda>c. if isAlphaNumeric c then c else CHR ''-'') s"

text \<open>\<^verbatim>\<open>s.replace(/\\/g, '/')\<close>\<close>

definition replaceBackslashes :: "string \<Rightarrow> string" where
  "replaceBackslashes s = map (\<lambda>c. if c = CHR 0x5C then CHR ''/'' else c) s"

text \<open>
  A value of the script: what \<^verbatim>\<open>JSON.parse\<close> yields, and \<^verbatim>\<open>undefined\<close>. An object
  lists its own properties in order, each key once.
\<close>

datatype jsval =
    JUndef
  | JNull
  | JBool bool
  | JNum rat
  | JStr string
  | JArr "jsval list"
  | JObj "(string \<times> jsval) list"

fun truthy :: "jsval \<Rightarrow> bool" where
  "truthy JUndef = False"
| "truthy JNull = False"
| "truthy (JBool b) = b"
| "truthy (JNum n) = (n \<noteq> 0)"
| "truthy (JStr s) = (s \<noteq> [])"
| "truthy (JArr xs) = True"
| "truthy (JObj kvs) = True"

datatype js_error = Error (errMessage: string)

text \<open>
  Reading a property \<^verbatim>\<open>v.k\<close> of a value that is neither \<^verbatim>\<open>undefined\<close> nor
  \<^verbatim>\<open>null\<close>. The names the script reads (\<^verbatim>\<open>type\<close>, \<^verbatim>\<open>message\<close>, \<^verbatim>\<open>content\<close>,
  \<^verbatim>\<open>attachments\<close>, ...) are no properties of the built-in prototypes, so they read as
  \<^verbatim>\<open>undefined\<close> on every value that does not own them.
\<close>

fun readProp :: "jsval \<Rightarrow> string \<Rightarrow> jsval" where
  "readProp (JObj kvs) k = (case map_of kvs k of Some v \<Rightarrow> v | None \<Rightarrow> JUndef)"
| "readProp v k = JUndef"

fun nullish :: "jsval \<Rightarrow> bool" where
  "nullish JUndef = True"
| "nullish JNull = True"
| "nullish v = False"

text \<open>On \<^verbatim>\<open>undefined\<close> and \<^verbatim>\<open>null\<close> the engine throws a TypeError.\<close>

definition getProp :: "jsval \<Rightarrow> string \<Rightarrow> js_error + jsval" where
  "getProp v k =
     (if nullish v
      then Inl (Error (''Cannot read properties of ''
                  @ (if v = JNull then ''null'' else ''undefined'')
                  @ '' (reading '' @ [CHR 0x27] @ k @ [CHR 0x27] @ '')''))
      else Inr (readProp v k))"

text \<open>Optional chaining \<^verbatim>\<open>v?.k\<close>.\<close>

definition getPropOpt :: "jsval \<Rightarrow> string \<Rightarrow> jsval" where
  "getPropOpt v k = (if nullish v then JUndef else readProp v k)"

fun isArray :: "jsval \<Rightarrow> bool" where
  "isArray (JArr xs) = True"
| "isArray v = False"

section \<open>Model identifiers\<close>

text \<open>
  \<^verbatim>\<open>function mapModelIdToSdkName(modelId)\<close>. The identifier is a command-line argument:
  a string, or absent.
\<close>

definition mapModelIdToSdkName :: "string option \<Rightarrow> string" where
  "mapModelIdToSdkName modelId =
     (case modelId of
        None \<Rightarrow> ''sonnet''
      | Some m \<Rightarrow>
          if m = [] then ''sonnet''
          else let lowerModel = toLowerCase m
               in if js_includes lowerModel ''opus'' then ''opus''
                  else if js_includes lowerModel ''haiku'' then ''haiku''
                  else ''sonnet'')"

section \<open>The single-use asynchronous channel\<close>

text \<open>
  \<^verbatim>\<open>class AsyncStream\<close>. The field \<^verbatim>\<open>readResolve\<close> holds the resolver of a
  suspended \<^verbatim>\<open>next()\<close>, or nothing: the model records whether one is held, and each
  method returns what the suspended reader is handed, if anything.
\<close>

record 'a AsyncStream =
  queue :: "'a list"
  readResolve :: bool
  isDone :: bool
  started :: bool

datatype 'a IteratorResult = Item 'a | EndOfStream

datatype 'a pulled = Settled "'a IteratorResult" | Suspended

definition AsyncStream_new :: "'a AsyncStream" where
  "AsyncStream_new = \<lparr>queue = [], readResolve = False, isDone = False, started = False\<rparr>"

definition AsyncStream_asyncIterator :: "'a AsyncStream \<Rightarrow> js_error + 'a AsyncStream" where
  "AsyncStream_asyncIterator s =
     (if started s then Inl (Error ''Stream can only be iterated once'')
      else Inr (s\<lparr>started := True\<rparr>))"

definition AsyncStream_next :: "'a AsyncStream \<Rightarrow> 'a pulled \<times> 'a AsyncStream" where
  "AsyncStream_next s =
     (case queue s of
        x # xs \<Rightarrow> (Settled (Item x), s\<lparr>queue := xs\<rparr>)
      | [] \<Rightarrow> if isDone s then (Settled EndOfStream, s)
              else (Suspended, s\<lparr>readResolve := True\<rparr>))"

definition AsyncStream_enqueue ::
  "'a AsyncStream \<Rightarrow> 'a \<Rightarrow> 'a IteratorResult option \<times> 'a AsyncStream" where
  "AsyncStream_enqueue s v =
     (if readResolve s then (Some (Item v), s\<lparr>readResolve := False\<rparr>)
      else (None, s\<lparr>queue := queue s @ [v]\<rparr>))"

definition AsyncStream_done :: "'a AsyncStream \<Rightarrow> 'a IteratorResult option \<times> 'a AsyncStream" where
  "AsyncStream_done s =
     (if readResolve s then (Some EndOfStream, s\<lparr>isDone := True, readResolve := False\<rparr>)
      else (None, s\<lparr>isDone := True\<rparr>))"

definition AsyncStream_return :: "'a AsyncStream \<Rightarrow> 'a IteratorResult \<times> 'a AsyncStream" where
  "AsyncStream_return s = (EndOfStream, s\<lparr>isDone := True\<rparr>)"

text \<open>
  A use of the channel, and the channel after it. A refused request for the iterator
  throws and leaves the channel as it was.
\<close>

datatype 'a stream_call = GetIterator | Next | Enqueue 'a | MarkDone | Return

fun after_call :: "'a AsyncStream \<Rightarrow> 'a stream_call \<Rightarrow> 'a AsyncStream" where
  "after_call s GetIterator =
     (case AsyncStream_asyncIterator s of Inr s' \<Rightarrow> s' | Inl e \<Rightarrow> s)"
| "after_call s Next = snd (AsyncStream_next s)"
| "after_call s (Enqueue v) = snd (AsyncStream_enqueue s v)"
| "after_call s MarkDone = snd (AsyncStream_done s)"
| "after_call s Return = snd (AsyncStream_return s)"

section \<open>The process and its environment\<close>

text \<open>
  What the script asks of Node, of the file system and of the two SDKs is a field of the
  record \<open>proc\<close> below: the built-in functions whose results the script only passes on
  (\<^verbatim>\<open>path.join\<close>, \<^verbatim>\<open>path.resolve\<close>, \<^verbatim>\<open>JSON.parse\<close>, \<^verbatim>\<open>JSON.stringify\<close>,
  \<^verbatim>\<open>randomUUID\<close>, \<^verbatim>\<open>Date\<close>, \<^verbatim>\<open>execSync\<close>) and the answers of the SDKs
  (\<^verbatim>\<open>query\<close>, \<^verbatim>\<open>messages.create\<close>) are functions of their arguments, and a call
  that throws has no result.
\<close>

datatype node = File string | Directory

datatype turn = Turn (turn_role: string) (turn_content: jsval)

record query_options =
  opt_cwd :: string
  opt_permissionMode :: string
  opt_model :: string
  opt_maxTurns :: nat
  opt_additionalDirectories :: "string list"
  opt_canUseTool :: bool
  opt_pathToClaudeCodeExecutable :: "string option"
  opt_settingSources :: "string list"
  opt_resume :: "string option"

datatype prompt = PromptText "string option" | PromptStream "jsval AsyncStream"

datatype query_args = QueryArgs prompt query_options

record create_args =
  client_apiKey :: "string option"
  client_baseURL :: "string option"
  create_model :: string
  create_max_tokens :: nat
  create_messages :: "turn list"

text \<open>
  The stream that \<^verbatim>\<open>query\<close> hands back: the messages it yields, and how it goes on
  after the last of them.
\<close>

datatype stream_end = Ends | Fails js_error | Stalls

datatype msg_stream = MsgStream "jsval list" stream_end

text \<open>
  The value of \<^verbatim>\<open>query(...)\<close> as \<^verbatim>\<open>Promise.race\<close> sees it: the call may throw
  at once; otherwise it settles, after some milliseconds or never, rejecting or giving the
  stream. A value that is no promise settles after 0 ms.
\<close>

datatype settles = Never | AfterMs nat

datatype query_call = QueryThrows js_error | QuerySettles settles "js_error + msg_stream"

record api_error =
  error_message :: "string option"
  error_type :: "string option"

record usage =
  input_tokens :: "nat option"
  output_tokens :: "nat option"

text \<open>
  The body that \<^verbatim>\<open>messages.create\<close> resolves to, an object. \<open>response_error\<close> is
  its field \<^verbatim>\<open>error\<close> when that is truthy, by the \<^verbatim>\<open>message\<close> and the \<^verbatim>\<open>type\<close>
  it carries; every other field is absent or has the type the API documents for it, and
  \<^verbatim>\<open>content\<close> is an array of blocks.
\<close>

record api_response =
  response_error :: "api_error option"
  response_type :: "string option"
  response_message :: "string option"
  response_id :: "string option"
  response_model :: "string option"
  response_stop_reason :: "string option"
  response_content :: "jsval list option"
  response_usage :: "usage option"

datatype create_call = CreateRejects js_error | CreateResolves api_response | CreateNeverSettles

text \<open>
  What the host of the process observes: the lines on standard output, each by its tag
  and the value printed after it (for \<^verbatim>\<open>[MESSAGE]\<close> and the closing record, the value
  handed to \<^verbatim>\<open>JSON.stringify\<close>), and the requests made to the two SDKs. Lines tagged
  \<^verbatim>\<open>[DEBUG]\<close> and the standard error stream are diagnostics and are left out; where
  computing a diagnostic can throw, the model throws.
\<close>

datatype event =
    MessageStart
  | Resuming string
  | Message jsval
  | Content jsval
  | SessionId jsval
  | MessageEnd
  | Persist string
  | Terminal jsval
  | CallQuery query_args
  | CallCreate create_args

record proc =
  proc_env :: "string \<Rightarrow> string option"
  proc_cwd :: "string option"
  proc_files :: "string \<Rightarrow> node option"
  proc_uuids :: nat
  proc_dates :: nat
  proc_out :: "event list"
  proc_platform :: string
  proc_homedir :: string
  proc_tmpdir :: string
  proc_join :: "string list \<Rightarrow> string"
  proc_resolve :: "string \<Rightarrow> string option"
  proc_chdir :: "string \<Rightarrow> string option"
  proc_denied :: "string \<Rightarrow> bool"
  proc_execSync :: "string \<Rightarrow> string option"
  JSON_parse :: "string \<Rightarrow> jsval option"
  JSON_stringify :: "jsval \<Rightarrow> string"
  proc_String :: "jsval \<Rightarrow> string"
  proc_randomUUID :: "nat \<Rightarrow> string"
  proc_toISOString :: "nat \<Rightarrow> string"
  proc_newAnthropic :: "string option \<Rightarrow> string option \<Rightarrow> js_error option"
  proc_query :: "query_args \<Rightarrow> query_call"
  proc_create :: "create_args \<Rightarrow> create_call"

text \<open>
  \<open>proc_env\<close> is \<^verbatim>\<open>process.env\<close>; \<open>proc_cwd\<close> is \<^verbatim>\<open>process.cwd()\<close>, which
  throws when the directory is gone; \<open>proc_files\<close> is the file system by path;
  \<open>proc_uuids\<close> and \<open>proc_dates\<close> count the calls of \<^verbatim>\<open>randomUUID()\<close> and
  \<^verbatim>\<open>new Date()\<close> so far, the \<open>n\<close>-th call giving \<open>proc_randomUUID p n\<close> and
  \<open>proc_toISOString p n\<close>; \<open>proc_chdir\<close> gives the directory the process is in after
  \<^verbatim>\<open>process.chdir\<close>, or nothing when that throws; \<open>proc_denied\<close> holds of the paths
  the process may not create, read or write; \<open>proc_String\<close> is the text of a value
  that is not a string, in a template.
\<close>

definition getenv :: "proc \<Rightarrow> string \<Rightarrow> string" where
  "getenv p k = (case proc_env p k of Some v \<Rightarrow> v | None \<Rightarrow> [])"

definition existsSync :: "proc \<Rightarrow> string \<Rightarrow> bool" where
  "existsSync p path = (proc_files p path \<noteq> None)"

definition readFileSync :: "proc \<Rightarrow> string \<Rightarrow> js_error + string" where
  "readFileSync p path =
     (case proc_files p path of
        None \<Rightarrow> Inl (Error (''ENOENT: no such file or directory, open '' @ [CHR 0x27] @ path @ [CHR 0x27]))
      | Some Directory \<Rightarrow> Inl (Error ''EISDIR: illegal operation on a directory, read'')
      | Some (File c) \<Rightarrow>
          if proc_denied p path
          then Inl (Error (''EACCES: permission denied, open '' @ [CHR 0x27] @ path @ [CHR 0x27]))
          else Inr c)"

text \<open>\<^verbatim>\<open>fs.statSync(path).isDirectory()\<close>, where a throw counts as no.\<close>

definition statIsDirectory :: "proc \<Rightarrow> string \<Rightarrow> bool" where
  "statIsDirectory p path = (proc_files p path = Some Directory)"

text \<open>\<^verbatim>\<open>fs.mkdirSync(dir, { recursive: true })\<close>\<close>

definition mkdirSync :: "proc \<Rightarrow> string \<Rightarrow> js_error + proc" where
  "mkdirSync p dir =
     (case proc_files p dir of
        Some Directory \<Rightarrow> Inr p
      | Some (File c) \<Rightarrow> Inl (Error (''EEXIST: file already exists, mkdir '' @ [CHR 0x27] @ dir @ [CHR 0x27]))
      | None \<Rightarrow>
          if proc_denied p dir
          then Inl (Error (''EACCES: permission denied, mkdir '' @ [CHR 0x27] @ dir @ [CHR 0x27]))
          else Inr (p\<lparr>proc_files := (proc_files p)(dir \<mapsto> Directory)\<rparr>))"

text \<open>\<^verbatim>\<open>fs.appendFileSync(path, data, 'utf8')\<close>\<close>

definition appendFileSync :: "proc \<Rightarrow> string \<Rightarrow> string \<Rightarrow> js_error + proc" where
  "appendFileSync p path data =
     (case proc_files p path of
        Some Directory \<Rightarrow> Inl (Error ''EISDIR: illegal operation on a directory, open'')
      | Some (File c) \<Rightarrow>
          if proc_denied p path
          then Inl (Error (''EACCES: permission denied, open '' @ [CHR 0x27] @ path @ [CHR 0x27]))
          else Inr (p\<lparr>proc_files := (proc_files p)(path \<mapsto> File (c @ data))\<rparr>)
      | None \<Rightarrow>
          if proc_denied p path
          then Inl (Error (''EACCES: permission denied, open '' @ [CHR 0x27] @ path @ [CHR 0x27]))
          else Inr (p\<lparr>proc_files := (proc_files p)(path \<mapsto> File data)\<rparr>))"

section \<open>The working directory\<close>

text \<open>\<^verbatim>\<open>function normalizePathForComparison(pathValue)\<close>\<close>

definition normalizePathForComparison :: "proc \<Rightarrow> string \<Rightarrow> string" where
  "normalizePathForComparison p pathValue =
     (if pathValue = [] then []
      else let normalized = replaceBackslashes pathValue
           in if proc_platform p = ''win32'' then toLowerCase normalized else normalized)"

text \<open>\<^verbatim>\<open>[...new Set(prefixes)]\<close>: the first of equal elements stays.\<close>

definition dedup :: "'a list \<Rightarrow> 'a list" where
  "dedup xs = rev (remdups (rev xs))"

text \<open>\<^verbatim>\<open>function getTempPathPrefixes()\<close>\<close>

definition getTempPathPrefixes :: "proc \<Rightarrow> string list" where
  "getTempPathPrefixes p =
     dedup
       ((if proc_tmpdir p \<noteq> [] then [normalizePathForComparison p (proc_tmpdir p)] else [])
        @ (if proc_platform p = ''win32''
           then concat
                  (map (\<lambda>varName.
                          let v = getenv p varName
                          in if v \<noteq> []
                             then normalizePathForComparison p v
                                  # (if varName = ''LOCALAPPDATA''
                                     then [normalizePathForComparison p (proc_join p [v, ''Temp''])]
                                     else [])
                             else [])
                     [''TEMP'', ''TMP'', ''LOCALAPPDATA''])
                @ [''c:'' @ [CHR 0x5C] @ ''windows'' @ [CHR 0x5C] @ ''temp'',
                   ''c:'' @ [CHR 0x5C] @ ''temp'']
           else [''/tmp'', ''/var/tmp'', ''/private/tmp'']
                @ (if getenv p ''TMPDIR'' \<noteq> []
                   then [normalizePathForComparison p (getenv p ''TMPDIR'')] else [])))"

text \<open>\<^verbatim>\<open>function sanitizePath(candidate)\<close>; every candidate is a string.\<close>

definition sanitizePath :: "proc \<Rightarrow> string \<Rightarrow> string option" where
  "sanitizePath p candidate =
     (if candidate = [] \<or> trim candidate = [] then None
      else proc_resolve p (trim candidate))"

text \<open>\<^verbatim>\<open>function isTempDirectory(pathValue)\<close>\<close>

definition isTempDirectory :: "proc \<Rightarrow> string \<Rightarrow> bool" where
  "isTempDirectory p pathValue =
     (if pathValue = [] then False
      else let normalizedPath = normalizePathForComparison p pathValue;
               tempPrefixes = getTempPathPrefixes p
           in list_ex (\<lambda>tempPath.
                         if tempPath = [] then False
                         else startsWith normalizedPath tempPath \<or> normalizedPath = tempPath)
                tempPrefixes)"

text \<open>
  \<^verbatim>\<open>function selectWorkingDirectory(requestedCwd)\<close>, in three parts: the project path
  of the environment, the list of candidates, and the loop over them.
\<close>

definition envProjectPath :: "proc \<Rightarrow> string option" where
  "envProjectPath p =
     (if getenv p ''IDEA_PROJECT_PATH'' \<noteq> [] then Some (getenv p ''IDEA_PROJECT_PATH'')
      else if getenv p ''PROJECT_PATH'' \<noteq> [] then Some (getenv p ''PROJECT_PATH'')
      else None)"

definition candidates :: "proc \<Rightarrow> string option \<Rightarrow> string \<Rightarrow> string list" where
  "candidates p requestedCwd currentDir =
     (case requestedCwd of
        Some r \<Rightarrow> if r \<noteq> [] \<and> r \<noteq> ''undefined'' \<and> r \<noteq> ''null'' then [r] else []
      | None \<Rightarrow> [])
     @ (case envProjectPath p of Some e \<Rightarrow> [e] | None \<Rightarrow> [])
     @ [currentDir, proc_homedir p]"

fun firstAccepted :: "proc \<Rightarrow> string list \<Rightarrow> string option" where
  "firstAccepted p [] = None"
| "firstAccepted p (candidate # rest) =
     (case sanitizePath p candidate of
        None \<Rightarrow> firstAccepted p rest
      | Some normalized \<Rightarrow>
          if isTempDirectory p normalized \<and> envProjectPath p \<noteq> None
          then firstAccepted p rest
          else if statIsDirectory p normalized then Some normalized
          else firstAccepted p rest)"

definition selectWorkingDirectory :: "proc \<Rightarrow> string option \<Rightarrow> js_error + string" where
  "selectWorkingDirectory p requestedCwd =
     (case proc_cwd p of
        None \<Rightarrow> Inl (Error ''ENOENT: no such file or directory, uv_cwd'')
      | Some currentDir \<Rightarrow>
          (case firstAccepted p (candidates p requestedCwd currentDir) of
             Some normalized \<Rightarrow> Inr normalized
           | None \<Rightarrow>
               Inr (case envProjectPath p of Some e \<Rightarrow> e | None \<Rightarrow> proc_homedir p)))"

section \<open>Attachments\<close>

text \<open>\<^verbatim>\<open>function loadAttachmentsFromEnv()\<close>\<close>

definition loadAttachmentsFromEnv :: "proc \<Rightarrow> jsval list" where
  "loadAttachmentsFromEnv p =
     (let filePath = getenv p ''CLAUDE_ATTACHMENTS_FILE''
      in if filePath = [] then []
         else case readFileSync p filePath of
                Inl e \<Rightarrow> []
              | Inr content \<Rightarrow>
                  (case JSON_parse p content of
                     None \<Rightarrow> []
                   | Some (JArr arr) \<Rightarrow> arr
                   | Some v \<Rightarrow> []))"

text \<open>\<^verbatim>\<open>async function loadAttachments(stdinData)\<close>\<close>

definition loadAttachments :: "proc \<Rightarrow> jsval \<Rightarrow> jsval list" where
  "loadAttachments p stdinData =
     (if truthy stdinData
      then case stdinData of
             JArr xs \<Rightarrow> xs
           | _ \<Rightarrow> (case readProp stdinData ''attachments'' of
                     JArr ys \<Rightarrow> ys
                   | _ \<Rightarrow> loadAttachmentsFromEnv p)
      else loadAttachmentsFromEnv p)"

section \<open>The transcript store\<close>

text \<open>The path both operations start from: \<^verbatim>\<open>cwd || process.cwd()\<close>.\<close>

definition cwdOrCurrent :: "proc \<Rightarrow> string option \<Rightarrow> string option" where
  "cwdOrCurrent p cwd =
     (case cwd of
        Some c \<Rightarrow> if c \<noteq> [] then Some c else proc_cwd p
      | None \<Rightarrow> proc_cwd p)"

text \<open>
  \<^verbatim>\<open>function persistJsonlMessage(sessionId, cwd, obj)\<close>. The callers pass an object
  literal, whose properties are \<open>obj\<close>. Whatever throws is caught and ends the call; what
  was done before stays done.
\<close>

definition enrich :: "proc \<Rightarrow> string \<Rightarrow> (string \<times> jsval) list \<Rightarrow> (string \<times> jsval) list" where
  "enrich p sessionId obj =
     AList.update ''timestamp'' (JStr (proc_toISOString p (proc_dates p)))
       (AList.update ''sessionId'' (JStr sessionId)
          (AList.update ''uuid'' (JStr (proc_randomUUID p (proc_uuids p))) obj))"

definition persistJsonlMessage ::
  "proc \<Rightarrow> string \<Rightarrow> string option \<Rightarrow> (string \<times> jsval) list \<Rightarrow> proc" where
  "persistJsonlMessage p sessionId cwd obj =
     (let projectsDir = proc_join p [proc_homedir p, ''.claude'', ''projects'']
      in case cwdOrCurrent p cwd of
           None \<Rightarrow> p
         | Some base \<Rightarrow>
             let sanitizedCwd = replaceNonAlphaNumeric base;
                 projectHistoryDir = proc_join p [projectsDir, sanitizedCwd]
             in case mkdirSync p projectHistoryDir of
                  Inl e \<Rightarrow> p
                | Inr p1 \<Rightarrow>
                    let sessionFile = proc_join p [projectHistoryDir, sessionId @ ''.jsonl''];
                        enrichedObj = enrich p1 sessionId obj;
                        p2 = p1\<lparr>proc_uuids := Suc (proc_uuids p1),
                                proc_dates := Suc (proc_dates p1)\<rparr>
                    in case appendFileSync p2 sessionFile
                              (JSON_stringify p (JObj enrichedObj) @ [CHR 0x0A]) of
                         Inl e \<Rightarrow> p2
                       | Inr p3 \<Rightarrow> p3\<lparr>proc_out := proc_out p3 @ [Persist sessionFile]\<rparr>)"

text \<open>
  \<^verbatim>\<open>function loadSessionHistory(sessionId, cwd)\<close>. First the body of its loop: the
  turns one line adds to \<^verbatim>\<open>messages\<close>, none when anything throws.
\<close>

definition lineTurns :: "proc \<Rightarrow> string \<Rightarrow> turn list" where
  "lineTurns p line =
     (case JSON_parse p line of
        None \<Rightarrow> []
      | Some msg \<Rightarrow>
          (case getProp msg ''type'' of
             Inl e \<Rightarrow> []
           | Inr t \<Rightarrow>
               if t = JStr ''user'' \<and> truthy (readProp msg ''message'')
                  \<and> truthy (readProp (readProp msg ''message'') ''content'')
               then [Turn ''user'' (readProp (readProp msg ''message'') ''content'')]
               else if t = JStr ''assistant'' \<and> truthy (readProp msg ''message'')
                       \<and> truthy (readProp (readProp msg ''message'') ''content'')
               then [Turn ''assistant'' (readProp (readProp msg ''message'') ''content'')]
               else []))"

fun collectMessages :: "proc \<Rightarrow> string list \<Rightarrow> turn list \<Rightarrow> turn list" where
  "collectMessages p [] messages = messages"
| "collectMessages p (line # lines) messages =
     collectMessages p lines (messages @ lineTurns p line)"

definition popTrailingUser :: "turn list \<Rightarrow> turn list" where
  "popTrailingUser messages =
     (if messages \<noteq> [] \<and> turn_role (last messages) = ''user'' then butlast messages
      else messages)"

definition sessionFilePath :: "proc \<Rightarrow> string \<Rightarrow> string \<Rightarrow> string" where
  "sessionFilePath p sessionId base =
     proc_join p [proc_join p [proc_homedir p, ''.claude'', ''projects''],
                  replaceNonAlphaNumeric base, sessionId @ ''.jsonl'']"

definition loadSessionHistory :: "proc \<Rightarrow> string \<Rightarrow> string option \<Rightarrow> turn list" where
  "loadSessionHistory p sessionId cwd =
     (case cwdOrCurrent p cwd of
        None \<Rightarrow> []
      | Some base \<Rightarrow>
          let sessionFile = sessionFilePath p sessionId base
          in if \<not> existsSync p sessionFile then []
             else case readFileSync p sessionFile of
                    Inl e \<Rightarrow> []
                  | Inr content \<Rightarrow>
                      let lines = filter (\<lambda>line. trim line \<noteq> []) (splitLines content)
                      in popTrailingUser (collectMessages p lines []))"

section \<open>Running an operation\<close>

text \<open>
  An operation of the script runs on the process and either returns, throws, or never
  returns (it awaits what never settles). It leaves the process changed: lines printed,
  files written, identifiers drawn.
\<close>

datatype 'a completion = Returns 'a | Throws js_error | NeverReturns

type_synonym 'a prog = "proc \<Rightarrow> 'a completion \<times> proc"

definition returns :: "'a \<Rightarrow> 'a prog" where
  "returns x = (\<lambda>p. (Returns x, p))"

definition throws :: "js_error \<Rightarrow> 'a prog" where
  "throws e = (\<lambda>p. (Throws e, p))"

definition andThen :: "'a prog \<Rightarrow> ('a \<Rightarrow> 'b prog) \<Rightarrow> 'b prog" where
  "andThen m f =
     (\<lambda>p. case m p of
             (Returns x, p') \<Rightarrow> f x p'
           | (Throws e, p') \<Rightarrow> (Throws e, p')
           | (NeverReturns, p') \<Rightarrow> (NeverReturns, p'))"

text \<open>\<^verbatim>\<open>try { m } catch (error) { h }\<close>\<close>

definition tryCatch :: "'a prog \<Rightarrow> (js_error \<Rightarrow> 'a prog) \<Rightarrow> 'a prog" where
  "tryCatch m h =
     (\<lambda>p. case m p of
             (Throws e, p') \<Rightarrow> h e p'
           | (Returns x, p') \<Rightarrow> (Returns x, p')
           | (NeverReturns, p') \<Rightarrow> (NeverReturns, p'))"

text \<open>\<^verbatim>\<open>console.log\<close> of a line of the protocol, and a request to an SDK.\<close>

definition emit :: "event \<Rightarrow> unit prog" where
  "emit ev = (\<lambda>p. (Returns (), p\<lparr>proc_out := proc_out p @ [ev]\<rparr>))"

text \<open>A computation that reads the process and may throw.\<close>

definition compute :: "(proc \<Rightarrow> js_error + 'a) \<Rightarrow> 'a prog" where
  "compute f = (\<lambda>p. case f p of Inl e \<Rightarrow> (Throws e, p) | Inr x \<Rightarrow> (Returns x, p))"

text \<open>\<^verbatim>\<open>randomUUID()\<close>\<close>

definition randomUUID :: "string prog" where
  "randomUUID =
     (\<lambda>p. (Returns (proc_randomUUID p (proc_uuids p)), p\<lparr>proc_uuids := Suc (proc_uuids p)\<rparr>))"

text \<open>\<^verbatim>\<open>try { process.chdir(dir) } catch { }\<close>\<close>

definition chdir :: "string \<Rightarrow> unit prog" where
  "chdir dir =
     (\<lambda>p. case proc_chdir p dir of
             None \<Rightarrow> (Returns (), p)
           | Some d \<Rightarrow> (Returns (), p\<lparr>proc_cwd := Some d\<rparr>))"

section \<open>Credentials and endpoint\<close>

text \<open>\<^verbatim>\<open>function loadClaudeSettings()\<close>\<close>

definition loadClaudeSettings :: "proc \<Rightarrow> jsval" where
  "loadClaudeSettings p =
     (case readFileSync p (proc_join p [proc_homedir p, ''.claude'', ''settings.json'']) of
        Inl e \<Rightarrow> JNull
      | Inr content \<Rightarrow>
          (case JSON_parse p content of None \<Rightarrow> JNull | Some settings \<Rightarrow> settings))"

record config =
  apiKey :: jsval
  baseUrl :: jsval
  apiKeySource :: string
  baseUrlSource :: string

text \<open>
  \<^verbatim>\<open>function setupApiKey()\<close>. Its two assignments to \<^verbatim>\<open>process.env\<close> are read by
  the runtime that \<^verbatim>\<open>query\<close> starts, not by the script, and are left out.
\<close>

definition setupApiKey :: "proc \<Rightarrow> js_error + config" where
  "setupApiKey p =
     (let settings = loadClaudeSettings p;
          settingsEnv = getPropOpt settings ''env'';
          key =
            (if truthy (getPropOpt settingsEnv ''ANTHROPIC_API_KEY'')
             then (getPropOpt settingsEnv ''ANTHROPIC_API_KEY'', ''settings.json'')
             else if truthy (getPropOpt settingsEnv ''ANTHROPIC_AUTH_TOKEN'')
             then (getPropOpt settingsEnv ''ANTHROPIC_AUTH_TOKEN'', ''settings.json'')
             else if getenv p ''ANTHROPIC_API_KEY'' \<noteq> []
             then (JStr (getenv p ''ANTHROPIC_API_KEY''), ''environment'')
             else (JUndef, ''default''));
          url =
            (if truthy (getPropOpt settingsEnv ''ANTHROPIC_BASE_URL'')
             then (getPropOpt settingsEnv ''ANTHROPIC_BASE_URL'', ''settings.json'')
             else if getenv p ''ANTHROPIC_BASE_URL'' \<noteq> []
             then (JStr (getenv p ''ANTHROPIC_BASE_URL''), ''environment'')
             else (JUndef, ''default''))
      in if \<not> truthy (fst key) then Inl (Error ''API Key not configured'')
         else Inr \<lparr>apiKey = fst key, baseUrl = fst url,
                   apiKeySource = snd key, baseUrlSource = snd url\<rparr>)"

text \<open>
  \<^verbatim>\<open>function isCustomBaseUrl(baseUrl)\<close>. A truthy value that is no string has no
  \<^verbatim>\<open>toLowerCase\<close>.
\<close>

definition officialUrls :: "string list" where
  "officialUrls = [''https://api.anthropic.com'', ''https://api.anthropic.com/'', ''api.anthropic.com'']"

definition isCustomBaseUrl :: "jsval \<Rightarrow> js_error + bool" where
  "isCustomBaseUrl url =
     (if \<not> truthy url then Inr False
      else case url of
             JStr s \<Rightarrow>
               Inr (\<not> list_ex (\<lambda>official. js_includes (toLowerCase s) ''api.anthropic.com'')
                        officialUrls)
           | _ \<Rightarrow> Inl (Error ''baseUrl.toLowerCase is not a function''))"

text \<open>The diagnostic of the key, \<^verbatim>\<open>apiKey.substring(0, 10)\<close>, on a key that is truthy.\<close>

definition apiKeyPreview :: "jsval \<Rightarrow> js_error + unit" where
  "apiKeyPreview key =
     (case key of
        JStr s \<Rightarrow> Inr ()
      | _ \<Rightarrow> Inl (Error ''apiKey.substring is not a function''))"

section \<open>The runtime executable\<close>

text \<open>The closures \<^verbatim>\<open>getClaudeCliPath\<close> of the two send operations, which differ in
  their lists of common paths.\<close>

definition whichClaude :: "proc \<Rightarrow> string option" where
  "whichClaude p =
     (case proc_execSync p ''which claude'' of
        None \<Rightarrow> None
      | Some output \<Rightarrow>
          let whichResult = trim output
          in if whichResult \<noteq> [] \<and> existsSync p whichResult then Some whichResult else None)"

definition whereClaude :: "proc \<Rightarrow> string option" where
  "whereClaude p =
     (case proc_execSync p ''where claude'' of
        None \<Rightarrow> None
      | Some output \<Rightarrow>
          (case splitLines (trim output) of
             [] \<Rightarrow> None
           | whereResult # others \<Rightarrow>
               if whereResult \<noteq> [] \<and> existsSync p whereResult then Some whereResult else None))"

text \<open>\<^verbatim>\<open>${process.env.HOME}\<close>\<close>

definition homeText :: "proc \<Rightarrow> string" where
  "homeText p = (case proc_env p ''HOME'' of Some h \<Rightarrow> h | None \<Rightarrow> ''undefined'')"

definition commonPathsUnix :: "proc \<Rightarrow> string list" where
  "commonPathsUnix p =
     [''/usr/local/bin/claude'',
      ''/usr/bin/claude'',
      homeText p @ ''/.nvm/versions/node/v24.11.1/bin/claude'',
      homeText p @ ''/.local/bin/claude'']"

definition commonPathsWindows :: "proc \<Rightarrow> string list" where
  "commonPathsWindows p =
     [''C:'' @ [CHR 0x5C] @ ''Program Files'' @ [CHR 0x5C] @ ''Claude'' @ [CHR 0x5C] @ ''claude.exe'',
      ''C:'' @ [CHR 0x5C] @ ''Users'' @ [CHR 0x5C] @ getenv p ''USERNAME''
        @ [CHR 0x5C] @ ''AppData'' @ [CHR 0x5C] @ ''Local'' @ [CHR 0x5C] @ ''Programs''
        @ [CHR 0x5C] @ ''Claude'' @ [CHR 0x5C] @ ''claude.exe'']"

definition getClaudeCliPath :: "proc \<Rightarrow> string list \<Rightarrow> string option" where
  "getClaudeCliPath p commonPaths =
     (case whichClaude p of
        Some found \<Rightarrow> Some found
      | None \<Rightarrow>
          (case whereClaude p of
             Some found \<Rightarrow> Some found
           | None \<Rightarrow> find (existsSync p) commonPaths))"

section \<open>The native streaming path\<close>

text \<open>The \<^verbatim>\<open>options\<close> both send operations hand to \<^verbatim>\<open>query\<close>.\<close>

definition queryOptions ::
  "proc \<Rightarrow> string \<Rightarrow> string option \<Rightarrow> string \<Rightarrow> string option \<Rightarrow> string option
     \<Rightarrow> query_options" where
  "queryOptions p workingDirectory permissionMode sdkModelName claudeCliPath resumeSessionId =
     \<lparr>opt_cwd = workingDirectory,
      opt_permissionMode =
        (case permissionMode of Some m \<Rightarrow> if m \<noteq> [] then m else ''default''
         | None \<Rightarrow> ''default''),
      opt_model = sdkModelName,
      opt_maxTurns = 100,
      opt_additionalDirectories =
        dedup (filter (\<lambda>d. d \<noteq> [])
                 [workingDirectory, getenv p ''IDEA_PROJECT_PATH'', getenv p ''PROJECT_PATH'']),
      opt_canUseTool = (permissionMode = Some ''default''),
      opt_pathToClaudeCodeExecutable = claudeCliPath,
      opt_settingSources = [''user'', ''project'', ''local''],
      opt_resume =
        (case resumeSessionId of Some r \<Rightarrow> if r \<noteq> [] then Some r else None | None \<Rightarrow> None)\<rparr>"

text \<open>\<^verbatim>\<open>if (resumeSessionId && resumeSessionId !== '') console.log('[RESUMING]', ...)\<close>\<close>

definition announceResume :: "string option \<Rightarrow> unit prog" where
  "announceResume resumeSessionId =
     (case resumeSessionId of
        Some r \<Rightarrow> if r \<noteq> [] then emit (Resuming r) else returns ()
      | None \<Rightarrow> returns ())"

text \<open>
  \<^verbatim>\<open>await Promise.race([queryPromise, timeoutPromise])\<close>, the timer rejecting after
  60000 ms.
\<close>

definition timeoutError :: js_error where
  "timeoutError = Error ''Claude Code process aborted by user''"

fun awaitRace :: "query_call \<Rightarrow> js_error + msg_stream" where
  "awaitRace (QueryThrows e) = Inl e"
| "awaitRace (QuerySettles Never outcome) = Inl timeoutError"
| "awaitRace (QuerySettles (AfterMs ms) outcome) =
     (if ms < 60000 then outcome else Inl timeoutError)"

text \<open>The body of \<^verbatim>\<open>for await (const msg of result)\<close>, first its loop over the blocks
  of an assistant message.\<close>

fun relayBlocks :: "jsval list \<Rightarrow> unit prog" where
  "relayBlocks [] = returns ()"
| "relayBlocks (block # blocks) =
     andThen (compute (\<lambda>p. getProp block ''type''))
       (\<lambda>blockType.
          andThen (if blockType = JStr ''text'' then emit (Content (readProp block ''text''))
                   else returns ())
            (\<lambda>u. relayBlocks blocks))"

definition relayMessage :: "jsval \<Rightarrow> jsval \<Rightarrow> jsval prog" where
  "relayMessage msg currentSessionId =
     andThen (compute (\<lambda>p. getProp msg ''type''))
       (\<lambda>msgType.
          andThen (emit (Message msg))
            (\<lambda>u. andThen
                   (if msgType = JStr ''assistant''
                    then case getPropOpt (readProp msg ''message'') ''content'' of
                           JArr blocks \<Rightarrow> relayBlocks blocks
                         | JStr s \<Rightarrow> emit (Content (JStr s))
                         | _ \<Rightarrow> returns ()
                    else returns ())
                   (\<lambda>u. if msgType = JStr ''system'' \<and> truthy (readProp msg ''session_id'')
                        then andThen (emit (SessionId (readProp msg ''session_id'')))
                               (\<lambda>u. returns (readProp msg ''session_id''))
                        else returns currentSessionId)))"

fun relayMessages :: "jsval list \<Rightarrow> jsval \<Rightarrow> jsval prog" where
  "relayMessages [] currentSessionId = returns currentSessionId"
| "relayMessages (msg # msgs) currentSessionId =
     andThen (relayMessage msg currentSessionId) (relayMessages msgs)"

definition streamEnd :: "stream_end \<Rightarrow> unit prog" where
  "streamEnd ending =
     (case ending of
        Ends \<Rightarrow> returns ()
      | Fails e \<Rightarrow> throws e
      | Stalls \<Rightarrow> (\<lambda>p. (NeverReturns, p)))"

definition successRecord :: "jsval \<Rightarrow> jsval" where
  "successRecord sessionId = JObj [(''success'', JBool True), (''sessionId'', sessionId)]"

definition failureRecord :: "string \<Rightarrow> jsval" where
  "failureRecord msg = JObj [(''success'', JBool False), (''error'', JStr msg)]"

text \<open>
  From \<^verbatim>\<open>query({ prompt, options })\<close> to the closing record of success: the part the
  two send operations share word for word.
\<close>

definition deliverNative :: "query_args \<Rightarrow> string option \<Rightarrow> unit prog" where
  "deliverNative args resumeSessionId =
     andThen (emit (CallQuery args))
       (\<lambda>u. andThen (compute (\<lambda>p. awaitRace (proc_query p args)))
          (\<lambda>result.
             case result of MsgStream msgs ending \<Rightarrow>
               andThen (relayMessages msgs
                          (case resumeSessionId of Some r \<Rightarrow> JStr r | None \<Rightarrow> JNull))
                 (\<lambda>currentSessionId.
                    andThen (streamEnd ending)
                      (\<lambda>u. andThen (emit MessageEnd)
                             (\<lambda>u. emit (Terminal (successRecord currentSessionId)))))))"

text \<open>\<^verbatim>\<open>catch (error) { console.log(JSON.stringify({ success: false, error: error.message })) }\<close>\<close>

definition reportFailure :: "js_error \<Rightarrow> unit prog" where
  "reportFailure error = emit (Terminal (failureRecord (errMessage error)))"

section \<open>The plain-text send operation\<close>

text \<open>
  \<^verbatim>\<open>async function sendMessage(message, resumeSessionId, cwd, permissionMode, model)\<close>,
  the arguments being strings of the command line or absent. First the \<^verbatim>\<open>try\<close> block
  up to the call of \<^verbatim>\<open>query\<close>, which yields the arguments of that call.
\<close>

definition sendMessage_context ::
  "string option \<Rightarrow> string option \<Rightarrow> string option \<Rightarrow> string option \<Rightarrow> string option
     \<Rightarrow> query_args prog" where
  "sendMessage_context message resumeSessionId cwd permissionMode model =
     andThen (compute setupApiKey)
       (\<lambda>cfg. andThen (compute (\<lambda>p. isCustomBaseUrl (baseUrl cfg)))
          (\<lambda>custom. andThen (compute (\<lambda>p. apiKeyPreview (apiKey cfg)))
             (\<lambda>u. andThen (emit MessageStart)
                (\<lambda>u. andThen (compute (\<lambda>p. selectWorkingDirectory p cwd))
                   (\<lambda>workingDirectory. andThen (chdir workingDirectory)
                      (\<lambda>u. andThen
                             (compute (\<lambda>p. Inr (queryOptions p workingDirectory permissionMode
                                               (mapModelIdToSdkName model)
                                               (getClaudeCliPath p
                                                  (commonPathsUnix p @ commonPathsWindows p))
                                               resumeSessionId)))
                             (\<lambda>options. andThen (announceResume resumeSessionId)
                                (\<lambda>u. returns (QueryArgs (PromptText message) options)))))))))"

definition sendMessage ::
  "string option \<Rightarrow> string option \<Rightarrow> string option \<Rightarrow> string option \<Rightarrow> string option
     \<Rightarrow> unit prog" where
  "sendMessage message resumeSessionId cwd permissionMode model =
     tryCatch
       (andThen (sendMessage_context message resumeSessionId cwd permissionMode model)
          (\<lambda>args. deliverNative args resumeSessionId))
       reportFailure"

section \<open>The send operation with attachments\<close>

text \<open>The text of a value in a template: a string is itself.\<close>

definition templateText :: "proc \<Rightarrow> jsval \<Rightarrow> string" where
  "templateText p v = (case v of JStr s \<Rightarrow> s | _ \<Rightarrow> proc_String p v)"















section \<open>The non-streaming fallback\<close>

text \<open>\<^verbatim>\<open>a || b\<close> on a string that may be absent.\<close>

definition orElse :: "string option \<Rightarrow> string \<Rightarrow> string" where
  "orElse a b = (case a of Some s \<Rightarrow> if s \<noteq> [] then s else b | None \<Rightarrow> b)"

definition textValue :: "string option \<Rightarrow> jsval" where
  "textValue a = (case a of Some s \<Rightarrow> JStr s | None \<Rightarrow> JUndef)"

definition apiErrorPrefix :: string where
  "apiErrorPrefix = ''API '' @ [CHR 0xE9, CHR 0x94, CHR 0x99, CHR 0xE8, CHR 0xAF, CHR 0xAF] @ '': ''"

definition apiErrorAdvice :: string where
  "apiErrorAdvice =
     [CHR 0x0A, CHR 0x0A, CHR 0xE5, CHR 0x8F, CHR 0xAF, CHR 0xE8, CHR 0x83, CHR 0xBD, CHR 0xE7,
      CHR 0x9A, CHR 0x84, CHR 0xE5, CHR 0x8E, CHR 0x9F, CHR 0xE5, CHR 0x9B, CHR 0xA0]
     @ '':'' @ [CHR 0x0A] @ ''1. API Key ''
     @ [CHR 0xE9, CHR 0x85, CHR 0x8D, CHR 0xE7, CHR 0xBD, CHR 0xAE, CHR 0xE4, CHR 0xB8, CHR 0x8D,
        CHR 0xE6, CHR 0xAD, CHR 0xA3, CHR 0xE7, CHR 0xA1, CHR 0xAE, CHR 0x0A]
     @ ''2. ''
     @ [CHR 0xE7, CHR 0xAC, CHR 0xAC, CHR 0xE4, CHR 0xB8, CHR 0x89, CHR 0xE6, CHR 0x96, CHR 0xB9,
        CHR 0xE4, CHR 0xBB, CHR 0xA3, CHR 0xE7, CHR 0x90, CHR 0x86, CHR 0xE6, CHR 0x9C, CHR 0x8D,
        CHR 0xE5, CHR 0x8A, CHR 0xA1, CHR 0xE9, CHR 0x85, CHR 0x8D, CHR 0xE7, CHR 0xBD, CHR 0xAE,
        CHR 0xE9, CHR 0x97, CHR 0xAE, CHR 0xE9, CHR 0xA2, CHR 0x98, CHR 0x0A]
     @ ''3. ''
     @ [CHR 0xE8, CHR 0xAF, CHR 0xB7, CHR 0xE6, CHR 0xA3, CHR 0x80, CHR 0xE6, CHR 0x9F, CHR 0xA5]
     @ '' ~/.claude/settings.json ''
     @ [CHR 0xE4, CHR 0xB8, CHR 0xAD, CHR 0xE7, CHR 0x9A, CHR 0x84, CHR 0xE9, CHR 0x85, CHR 0x8D,
        CHR 0xE7, CHR 0xBD, CHR 0xAE]"

definition usageOf :: "nat \<Rightarrow> nat \<Rightarrow> jsval" where
  "usageOf inputTokens outputTokens =
     JObj [(''input_tokens'', JNum (of_nat inputTokens)),
           (''output_tokens'', JNum (of_nat outputTokens)),
           (''cache_creation_input_tokens'', JNum 0),
           (''cache_read_input_tokens'', JNum 0)]"

definition assistantMessage ::
  "string \<Rightarrow> string \<Rightarrow> string \<Rightarrow> jsval \<Rightarrow> jsval list \<Rightarrow> string \<Rightarrow> string \<Rightarrow> jsval" where
  "assistantMessage messageId modelName stopReason usageValue contentBlocks sessionId uuid =
     JObj [(''type'', JStr ''assistant''),
           (''message'',
              JObj [(''id'', JStr messageId),
                    (''model'', JStr modelName),
                    (''role'', JStr ''assistant''),
                    (''stop_reason'', JStr stopReason),
                    (''type'', JStr ''message''),
                    (''usage'', usageValue),
                    (''content'', JArr contentBlocks)]),
           (''session_id'', JStr sessionId),
           (''uuid'', JStr uuid)]"

definition resultMessage ::
  "string \<Rightarrow> bool \<Rightarrow> string \<Rightarrow> string \<Rightarrow> jsval \<Rightarrow> string \<Rightarrow> jsval" where
  "resultMessage subtype isError resultText sessionId usageValue uuid =
     JObj [(''type'', JStr ''result''),
           (''subtype'', JStr subtype),
           (''is_error'', JBool isError),
           (''duration_ms'', JNum 0),
           (''num_turns'', JNum 1),
           (''result'', JStr resultText),
           (''session_id'', JStr sessionId),
           (''total_cost_usd'', JNum 0),
           (''usage'', usageValue),
           (''uuid'', JStr uuid)]"

text \<open>\<^verbatim>\<open>if (response.error || response.type === 'error')\<close>\<close>

definition isErrorResponse :: "api_response \<Rightarrow> bool" where
  "isErrorResponse response =
     (response_error response \<noteq> None \<or> response_type response = Some ''error'')"

text \<open>\<^verbatim>\<open>response.error?.message || response.message || 'Unknown API error'\<close>\<close>

definition errorMsgOf :: "api_response \<Rightarrow> string" where
  "errorMsgOf response =
     orElse (case response_error response of Some e \<Rightarrow> error_message e | None \<Rightarrow> None)
       (orElse (response_message response) ''Unknown API error'')"

text \<open>The branch of an error response, up to its \<^verbatim>\<open>return\<close>.\<close>

definition reportApiError :: "string \<Rightarrow> string \<Rightarrow> api_response \<Rightarrow> unit prog" where
  "reportApiError sessionId modelId response =
     (let errorMsg = errorMsgOf response;
          errorText = apiErrorPrefix @ errorMsg @ apiErrorAdvice;
          errorContent = [JObj [(''type'', JStr ''text''), (''text'', JStr errorText)]]
      in andThen randomUUID
           (\<lambda>messageId. andThen randomUUID
              (\<lambda>uuid. andThen
                 (emit (Message (assistantMessage messageId modelId ''error'' (usageOf 0 0)
                                   errorContent sessionId uuid)))
                 (\<lambda>u. andThen (emit (Content (JStr errorText)))
                    (\<lambda>u. andThen randomUUID
                       (\<lambda>resultUuid. andThen
                          (emit (Message (resultMessage ''error'' True errorText sessionId
                                            (usageOf 0 0) resultUuid)))
                          (\<lambda>u. andThen (emit MessageEnd)
                             (\<lambda>u. emit (Terminal (failureRecord errorMsg))))))))))"

text \<open>\<^verbatim>\<open>respContent.map(b => b.type === 'text' ? b.text : '').join('')\<close>\<close>

fun textsOf :: "jsval list \<Rightarrow> js_error + jsval list" where
  "textsOf [] = Inr []"
| "textsOf (b # bs) =
     (case getProp b ''type'' of
        Inl e \<Rightarrow> Inl e
      | Inr t \<Rightarrow>
          (case textsOf bs of
             Inl e \<Rightarrow> Inl e
           | Inr vs \<Rightarrow> Inr ((if t = JStr ''text'' then readProp b ''text'' else JStr []) # vs)))"

definition joinTexts :: "proc \<Rightarrow> jsval list \<Rightarrow> string" where
  "joinTexts p vs = concat (map (\<lambda>v. if nullish v then [] else templateText p v) vs)"

text \<open>What follows a response that is no error.\<close>

definition reportResponse ::
  "string \<Rightarrow> string option \<Rightarrow> string \<Rightarrow> api_response \<Rightarrow> unit prog" where
  "reportResponse sessionId cwd modelId response =
     (let respContent = (case response_content response of Some c \<Rightarrow> c | None \<Rightarrow> []);
          inputTokens = (case response_usage response of
                           Some us \<Rightarrow> (case input_tokens us of Some n \<Rightarrow> n | None \<Rightarrow> 0)
                         | None \<Rightarrow> 0);
          outputTokens = (case response_usage response of
                            Some us \<Rightarrow> (case output_tokens us of Some n \<Rightarrow> n | None \<Rightarrow> 0)
                          | None \<Rightarrow> 0)
      in andThen (case response_id response of
                    Some i \<Rightarrow> if i \<noteq> [] then returns i else randomUUID
                  | None \<Rightarrow> randomUUID)
           (\<lambda>messageId. andThen randomUUID
              (\<lambda>uuid. andThen
                 (emit (Message (assistantMessage messageId
                                   (orElse (response_model response) modelId)
                                   (orElse (response_stop_reason response) ''end_turn'')
                                   (usageOf inputTokens outputTokens)
                                   respContent sessionId uuid)))
                 (\<lambda>u. andThen
                        (\<lambda>p. (Returns (),
                               persistJsonlMessage p sessionId cwd
                                 [(''type'', JStr ''assistant''),
                                  (''message'', JObj [(''content'', JArr respContent)])]))
                        (\<lambda>u. andThen (relayBlocks respContent)
                           (\<lambda>u. andThen (compute (\<lambda>p. textsOf respContent))
                              (\<lambda>texts. andThen randomUUID
                                 (\<lambda>resultUuid. andThen
                                    (\<lambda>p. emit (Message (resultMessage ''success'' False
                                                         (joinTexts p texts) sessionId
                                                         (usageOf inputTokens outputTokens)
                                                         resultUuid)) p)
                                    (\<lambda>u. andThen (emit MessageEnd)
                                       (\<lambda>u. emit (Terminal (successRecord (JStr sessionId)))))))))))))"

text \<open>\<^verbatim>\<open>await client.messages.create({ model, max_tokens, messages })\<close>\<close>

definition awaitCreate :: "create_args \<Rightarrow> api_response prog" where
  "awaitCreate args =
     (\<lambda>p. case proc_create p args of
             CreateRejects e \<Rightarrow> (Throws e, p)
           | CreateResolves response \<Rightarrow> (Returns response, p)
           | CreateNeverSettles \<Rightarrow> (NeverReturns, p))"

text \<open>
  \<^verbatim>\<open>async function sendMessageWithAnthropicSDK(message, resumeSessionId, cwd,
  permissionMode, model, apiKey, baseUrl)\<close>. First the \<^verbatim>\<open>try\<close> block up to the
  request, which yields the session, the model and the arguments of the request.
\<close>

definition sendMessageWithAnthropicSDK_context ::
  "string option \<Rightarrow> string option \<Rightarrow> string option \<Rightarrow> string option \<Rightarrow> string option
     \<Rightarrow> string option \<Rightarrow> string option \<Rightarrow> (string \<times> string \<times> create_args) prog" where
  "sendMessageWithAnthropicSDK_context message resumeSessionId cwd permissionMode model key url =
     andThen (compute (\<lambda>p. selectWorkingDirectory p cwd))
       (\<lambda>workingDirectory. andThen (chdir workingDirectory)
          (\<lambda>u. andThen (case resumeSessionId of
                            Some r \<Rightarrow> if r \<noteq> [] then returns r else randomUUID
                          | None \<Rightarrow> randomUUID)
             (\<lambda>sessionId.
                let modelId = orElse model ''claude-sonnet-4-5'';
                    baseURL = (case url of Some b \<Rightarrow> if b \<noteq> [] then Some b else None
                               | None \<Rightarrow> None);
                    userContent = JArr [JObj [(''type'', JStr ''text''),
                                              (''text'', textValue message)]]
                in andThen
                     (compute (\<lambda>p. case proc_newAnthropic p key baseURL of
                                      Some e \<Rightarrow> Inl e | None \<Rightarrow> Inr ()))
                     (\<lambda>u. andThen (emit MessageStart)
                        (\<lambda>u. andThen (emit (SessionId (JStr sessionId)))
                           (\<lambda>u. andThen
                                  (\<lambda>p. (Returns (),
                                         persistJsonlMessage p sessionId cwd
                                           [(''type'', JStr ''user''),
                                            (''message'', JObj [(''content'', userContent)])]))
                                  (\<lambda>u. andThen
                                         (\<lambda>p. (Returns
                                                  (if orElse resumeSessionId [] \<noteq> []
                                                   then loadSessionHistory p sessionId cwd
                                                   else []), p))
                                         (\<lambda>historyMessages.
                                            let messagesForApi =
                                                  (if historyMessages \<noteq> []
                                                   then historyMessages @ [Turn ''user'' userContent]
                                                   else [Turn ''user'' userContent])
                                            in andThen randomUUID
                                                 (\<lambda>uuid. andThen
                                                    (emit (Message
                                                       (JObj [(''type'', JStr ''system''),
                                                              (''subtype'', JStr ''init''),
                                                              (''cwd'', JStr workingDirectory),
                                                              (''session_id'', JStr sessionId),
                                                              (''tools'', JArr []),
                                                              (''mcp_servers'', JArr []),
                                                              (''model'', JStr modelId),
                                                              (''permissionMode'',
                                                                 JStr (orElse permissionMode ''default'')),
                                                              (''apiKeySource'', JStr ''ANTHROPIC_API_KEY''),
                                                              (''uuid'', JStr uuid)])))
                                                    (\<lambda>u. returns
                                                           (sessionId, modelId,
                                                            \<lparr>client_apiKey = key,
                                                             client_baseURL = baseURL,
                                                             create_model = modelId,
                                                             create_max_tokens = 8192,
                                                             create_messages = messagesForApi\<rparr>)))))))))))"

definition sendMessageWithAnthropicSDK ::
  "string option \<Rightarrow> string option \<Rightarrow> string option \<Rightarrow> string option \<Rightarrow> string option
     \<Rightarrow> string option \<Rightarrow> string option \<Rightarrow> unit prog" where
  "sendMessageWithAnthropicSDK message resumeSessionId cwd permissionMode model key url =
     tryCatch
       (andThen (sendMessageWithAnthropicSDK_context message resumeSessionId cwd permissionMode
                   model key url)
          (\<lambda>(sessionId, modelId, args).
             andThen (emit (CallCreate args))
               (\<lambda>u. andThen (awaitCreate args)
                  (\<lambda>response.
                     if isErrorResponse response
                     then reportApiError sessionId modelId response
                     else reportResponse sessionId cwd modelId response))))
       reportFailure"

section \<open>The wording of the specification\<close>

text \<open>
  A candidate, in its resolved form, is skipped when it lies under a temp prefix and the
  environment names a project path; it is accepted when it is not skipped and is an
  existing directory.
\<close>

definition skipped :: "proc \<Rightarrow> string \<Rightarrow> bool" where
  "skipped p normalized = (isTempDirectory p normalized \<and> envProjectPath p \<noteq> None)"

definition accepted :: "proc \<Rightarrow> string \<Rightarrow> bool" where
  "accepted p normalized = (\<not> skipped p normalized \<and> statIsDirectory p normalized)"

text \<open>
  The history of a transcript, as the specification words it: every line is parsed, a
  line that does not parse is skipped, an entry of type \<open>user\<close> or \<open>assistant\<close> with a
  \<open>message.content\<close> becomes a turn, in the order of the file, and a final \<open>user\<close> turn
  is dropped.
\<close>

definition specTurn :: "jsval \<Rightarrow> turn option" where
  "specTurn msg =
     (let t = getPropOpt msg ''type'';
          c = getPropOpt (getPropOpt msg ''message'') ''content''
      in if t = JStr ''user'' \<and> truthy c then Some (Turn ''user'' c)
         else if t = JStr ''assistant'' \<and> truthy c then Some (Turn ''assistant'' c)
         else None)"

definition specHistory :: "proc \<Rightarrow> string \<Rightarrow> turn list" where
  "specHistory p text =
     (let kept = List.map_filter
                   (\<lambda>line. case JSON_parse p line of None \<Rightarrow> None | Some msg \<Rightarrow> specTurn msg)
                   (splitLines text)
      in if kept \<noteq> [] \<and> turn_role (last kept) = ''user'' then butlast kept else kept)"

text \<open>The text of a file, empty when there is no such file.\<close>

definition fileText :: "proc \<Rightarrow> string \<Rightarrow> string" where
  "fileText p path = (case proc_files p path of Some (File c) \<Rightarrow> c | _ \<Rightarrow> [])"

section \<open>What an operation prints\<close>

text \<open>
  An operation in which every run adds to the output only events of one kind, and leaves
  the two SDKs as they are.
\<close>

definition grows :: "(event \<Rightarrow> bool) \<Rightarrow> 'a prog \<Rightarrow> bool" where
  "grows ok m =
     (\<forall>p. (\<exists>evs. proc_out (snd (m p)) = proc_out p @ evs \<and> list_all ok evs)
          \<and> proc_query (snd (m p)) = proc_query p
          \<and> proc_create (snd (m p)) = proc_create p)"

fun isCall :: "event \<Rightarrow> bool" where
  "isCall (CallQuery args) = True"
| "isCall (CallCreate args) = True"
| "isCall ev = False"

text \<open>The line \<^verbatim>\<open>[RESUMING]\<close>, when a session is resumed.\<close>

definition resumingLine :: "string option \<Rightarrow> event list" where
  "resumingLine resumeSessionId =
     (case resumeSessionId of Some r \<Rightarrow> if r \<noteq> [] then [Resuming r] else [] | None \<Rightarrow> [])"


text \<open>An operation that, whenever it returns, has added exactly the given events.\<close>

definition yields :: "event list \<Rightarrow> 'a prog \<Rightarrow> bool" where
  "yields evs m = (\<forall>p x p1. m p = (Returns x, p1) \<longrightarrow> proc_out p1 = proc_out p @ evs)"

text \<open>The diagnostic text shown for an error message of the API.\<close>

definition diagnosticText :: "string \<Rightarrow> string" where
  "diagnosticText errorMsg = apiErrorPrefix @ errorMsg @ apiErrorAdvice"

section \<open>An example process\<close>

text \<open>
  A Linux process in \<^verbatim>\<open>/home/u/proj\<close>, for evaluating the model. Its \<^verbatim>\<open>JSON.parse\<close>
  knows the lines listed in \<open>demoLines\<close> and rejects every other text.
\<close>

fun joinWithSlash :: "string list \<Rightarrow> string" where
  "joinWithSlash [] = ''.''"
| "joinWithSlash [x] = x"
| "joinWithSlash (x # y # ys) = x @ ''/'' @ joinWithSlash (y # ys)"

definition demoLines :: "(string \<times> jsval) list" where
  \<open>demoLines =
     [(''{"type":"user","message":{"content":"hello"}}'',
         JObj [(''type'', JStr ''user''), (''message'', JObj [(''content'', JStr ''hello'')])]),
      (''{"type":"assistant","message":{"content":[{"type":"text","text":"hi"}]}}'',
         JObj [(''type'', JStr ''assistant''),
               (''message'', JObj [(''content'',
                   JArr [JObj [(''type'', JStr ''text''), (''text'', JStr ''hi'')]])])]),
      (''{"type":"summary"}'', JObj [(''type'', JStr ''summary'')]),
      (''null'', JNull),
      (''{"type":"user","message":{"content":"again"}}'',
         JObj [(''type'', JStr ''user''), (''message'', JObj [(''content'', JStr ''again'')])]),
      (''[{"fileName":"a.png","mediaType":"image/png","data":"AAAA"}]'',
         JArr [JObj [(''fileName'', JStr ''a.png''), (''mediaType'', JStr ''image/png''),
                     (''data'', JStr ''AAAA'')]])]\<close>

definition demoProc :: proc where
  "demoProc =
     \<lparr>proc_env = Map.empty,
      proc_cwd = Some ''/home/u/proj'',
      proc_files = [''/home/u/proj'' \<mapsto> Directory, ''/home/u'' \<mapsto> Directory,
                    ''/tmp/x'' \<mapsto> Directory],
      proc_uuids = 0,
      proc_dates = 0,
      proc_out = [],
      proc_platform = ''linux'',
      proc_homedir = ''/home/u'',
      proc_tmpdir = ''/tmp'',
      proc_join = joinWithSlash,
      proc_resolve = Some,
      proc_chdir = Some,
      proc_denied = (\<lambda>path. False),
      proc_execSync = (\<lambda>command. None),
      JSON_parse = map_of demoLines,
      JSON_stringify =
        (\<lambda>v. case readProp v ''uuid'' of JStr u \<Rightarrow> ''{entry '' @ u @ ''}'' | _ \<Rightarrow> ''{}''),
      proc_String = (\<lambda>v. ''[object Object]''),
      proc_randomUUID = (\<lambda>n. ''uuid-'' @ replicate n (CHR ''i'')),
      proc_toISOString = (\<lambda>n. ''2025-01-01T00:00:00.000Z''),
      proc_newAnthropic = (\<lambda>apiKey baseURL. None),
      proc_query = (\<lambda>args. QuerySettles (AfterMs 0) (Inr (MsgStream [] Ends))),
      proc_create = (\<lambda>args. CreateNeverSettles)\<rparr>"

text \<open>The example process with a legacy attachments file of one attachment.\<close>

definition demoAttachProc :: proc where
  \<open>demoAttachProc =
     demoProc\<lparr>proc_env := [''CLAUDE_ATTACHMENTS_FILE'' \<mapsto> ''/tmp/x/att.json''],
              proc_files := (proc_files demoProc)
                (''/tmp/x/att.json'' \<mapsto>
                   File ''[{"fileName":"a.png","mediaType":"image/png","data":"AAAA"}]'')\<rparr>\<close>

text \<open>The example process with a transcript of session \<open>s1\<close>.\<close>

definition demoHistoryProc :: proc where
  \<open>demoHistoryProc =
     demoProc\<lparr>proc_files := (proc_files demoProc)
       (''/home/u/.claude/projects/-home-u-proj/s1.jsonl'' \<mapsto>
          File (''{"type":"user","message":{"content":"hello"}}'' @ [CHR 0x0A]
                @ ''not json'' @ [CHR 0x0A]
                @ ''{"type":"assistant","message":{"content":[{"type":"text","text":"hi"}]}}''
                @ [CHR 0x0A]
                @ ''{"type":"summary"}'' @ [CHR 0x0A]
                @ ''  '' @ [CHR 0x0A]
                @ ''null'' @ [CHR 0x0A]
                @ ''{"type":"user","message":{"content":"again"}}'' @ [CHR 0x0A]))\<rparr>\<close>

text \<open>The example process with a key and a custom endpoint in its environment.\<close>

definition demoKeyProc :: proc where
  "demoKeyProc =
     demoProc\<lparr>proc_env := [''ANTHROPIC_API_KEY'' \<mapsto> ''sk-ant-0123456789'',
                            ''ANTHROPIC_BASE_URL'' \<mapsto> ''https://proxy.example.com/v1'']\<rparr>"

text \<open>An error body, as the API words it.\<close>

definition demoErrorResponse :: api_response where
  "demoErrorResponse =
     \<lparr>response_error = Some \<lparr>error_message = Some ''invalid x-api-key'',
                               error_type = Some ''authentication_error''\<rparr>,
      response_type = Some ''error'',
      response_message = None,
      response_id = None,
      response_model = None,
      response_stop_reason = None,
      response_content = None,
      response_usage = None\<rparr>"


text \<open>The example process with a remote that answers with the error body.\<close>

definition demoRefusedProc :: proc where
  "demoRefusedProc = demoProc\<lparr>proc_create := (\<lambda>args. CreateResolves demoErrorResponse)\<rparr>"

section \<open>Properties\<close>

lemma startsWith_prefix: "startsWith s p = prefix p s"
  by (induction s p rule: startsWith.induct) auto

lemma js_includes_sublist: "js_includes s p = sublist p s"
  by (induction s p rule: js_includes.induct)
     (auto simp: startsWith_prefix sublist_Cons_right)

text \<open>
  C4. For every model identifier, the mapping is \<open>opus\<close> when the lower-cased identifier
  contains \<open>opus\<close>, otherwise \<open>haiku\<close> when it contains \<open>haiku\<close>, otherwise \<open>sonnet\<close>: an
  identifier with neither substring, recognised or not, gets the default tier, an
  identifier with both gets \<open>opus\<close>, and so does an absent identifier get the default.
\<close>

theorem mapModelIdToSdkName_tiers:
  "mapModelIdToSdkName (Some m) =
     (if (\<exists>pre post. toLowerCase m = pre @ ''opus'' @ post) then ''opus''
      else if (\<exists>pre post. toLowerCase m = pre @ ''haiku'' @ post) then ''haiku''
      else ''sonnet'')
   \<and> mapModelIdToSdkName None = ''sonnet''"
proof -
  have empty: "\<not> sublist ''opus'' (toLowerCase []) \<and> \<not> sublist ''haiku'' (toLowerCase [])"
    by (simp add: toLowerCase_def)
  show ?thesis
    using empty
    by (cases "m = []")
       (auto simp: mapModelIdToSdkName_def Let_def js_includes_sublist sublist_def)
qed

theorem mapModelIdToSdkName_tiers_witness:
  "mapModelIdToSdkName (Some ''Claude-HAIKU-then-Opus-4'') = ''opus''
   \<and> mapModelIdToSdkName (Some ''claude-3-5-Haiku'') = ''haiku''
   \<and> mapModelIdToSdkName (Some ''gpt-4o'') = ''sonnet''"
proof -
  have a: "toLowerCase ''Claude-HAIKU-then-Opus-4'' = ''claude-haiku-then-'' @ ''opus'' @ ''-4''"
    by code_simp
  have b: "toLowerCase ''claude-3-5-Haiku'' = ''claude-3-5-'' @ ''haiku'' @ ''''"
    by code_simp
  have b': "\<not> sublist ''opus'' (toLowerCase ''claude-3-5-Haiku'')"
    unfolding js_includes_sublist [symmetric]
    by code_simp
  have c: "\<not> sublist ''opus'' (toLowerCase ''gpt-4o'')"
          "\<not> sublist ''haiku'' (toLowerCase ''gpt-4o'')"
    unfolding js_includes_sublist [symmetric]
    by code_simp+
  have 1: "mapModelIdToSdkName (Some ''Claude-HAIKU-then-Opus-4'') = ''opus''"
    using mapModelIdToSdkName_tiers [of "''Claude-HAIKU-then-Opus-4''"] a by metis
  have 2: "mapModelIdToSdkName (Some ''claude-3-5-Haiku'') = ''haiku''"
    using mapModelIdToSdkName_tiers [of "''claude-3-5-Haiku''"] b b'
    unfolding sublist_def by metis
  have 3: "mapModelIdToSdkName (Some ''gpt-4o'') = ''sonnet''"
    using mapModelIdToSdkName_tiers [of "''gpt-4o''"] c
    unfolding sublist_def by metis
  show ?thesis using 1 2 3 by simp
qed

lemma started_after_call:
  "started (after_call s c) = (started s \<or> c = GetIterator)"
  by (cases c)
     (auto simp: AsyncStream_asyncIterator_def AsyncStream_next_def AsyncStream_enqueue_def
        AsyncStream_done_def AsyncStream_return_def split: list.splits)

lemma started_after_calls:
  "started (foldl after_call s cs) = (started s \<or> GetIterator \<in> set cs)"
  by (induction cs arbitrary: s) (auto simp: started_after_call)

text \<open>
  C8. The channel is iterated once. On a new channel, after any uses that do not ask for
  the iterator, the first request for the iterator succeeds and marks the channel
  started; after a request has succeeded, every later request, whatever was enqueued,
  pulled or finished in between, throws \<open>Stream can only be iterated once\<close>.
\<close>

theorem AsyncStream_iterated_once:
  "(GetIterator \<notin> set cs \<longrightarrow>
      AsyncStream_asyncIterator (foldl after_call AsyncStream_new cs)
        = Inr ((foldl after_call AsyncStream_new cs)\<lparr>started := True\<rparr>))
   \<and> (AsyncStream_asyncIterator s = Inr s' \<longrightarrow>
        started s' \<and>
        AsyncStream_asyncIterator (foldl after_call s' ds)
          = Inl (Error ''Stream can only be iterated once''))"
proof (intro conjI impI)
  assume "GetIterator \<notin> set cs"
  then have "\<not> started (foldl after_call (AsyncStream_new :: 'a AsyncStream) cs)"
    by (simp add: started_after_calls AsyncStream_new_def)
  then show "AsyncStream_asyncIterator (foldl after_call AsyncStream_new cs)
      = Inr ((foldl after_call AsyncStream_new cs)\<lparr>started := True\<rparr>)"
    by (simp add: AsyncStream_asyncIterator_def)
next
  assume ok: "AsyncStream_asyncIterator s = Inr s'"
  then show st: "started s'"
    by (auto simp: AsyncStream_asyncIterator_def split: if_splits)
  then have "started (foldl after_call s' ds)"
    by (simp add: started_after_calls)
  then show "AsyncStream_asyncIterator (foldl after_call s' ds)
      = Inl (Error ''Stream can only be iterated once'')"
    by (simp add: AsyncStream_asyncIterator_def)
qed

theorem AsyncStream_iterated_once_witness:
  "AsyncStream_asyncIterator
     (foldl after_call (AsyncStream_new :: nat AsyncStream) [Enqueue 1, MarkDone])
     = Inr \<lparr>queue = [1], readResolve = False, isDone = True, started = True\<rparr>
   \<and> AsyncStream_asyncIterator
       (foldl after_call
          \<lparr>queue = [1::nat], readResolve = False, isDone = True, started = True\<rparr>
          [Next, Next, Enqueue 2, Return])
     = Inl (Error ''Stream can only be iterated once'')"
proof -
  let ?s = "foldl after_call (AsyncStream_new :: nat AsyncStream) [Enqueue 1, MarkDone]"
  let ?s' = "\<lparr>queue = [1::nat], readResolve = False, isDone = True, started = True\<rparr>"
  have s: "?s = \<lparr>queue = [1], readResolve = False, isDone = True, started = False\<rparr>"
    by (simp add: AsyncStream_new_def AsyncStream_enqueue_def AsyncStream_done_def)
  have "GetIterator \<notin> set [Enqueue (1::nat), MarkDone]"
    by simp
  then have first: "AsyncStream_asyncIterator ?s = Inr (?s\<lparr>started := True\<rparr>)"
    using AsyncStream_iterated_once [of "[Enqueue (1::nat), MarkDone]"] by blast
  then have first': "AsyncStream_asyncIterator ?s = Inr ?s'"
    unfolding s by simp
  then have "AsyncStream_asyncIterator (foldl after_call ?s' [Next, Next, Enqueue 2, Return])
      = Inl (Error ''Stream can only be iterated once'')"
    using AsyncStream_iterated_once [of _ ?s ?s' "[Next, Next, Enqueue 2, Return]"] by blast
  with first' show ?thesis by simp
qed

lemma firstAccepted_find:
  "firstAccepted p cs = find (accepted p) (List.map_filter (sanitizePath p) cs)"
  by (induction cs)
     (auto simp: List.map_filter_simps accepted_def skipped_def split: option.splits)

lemma isTempDirectory_prefix:
  "isTempDirectory p n =
     (n \<noteq> [] \<and> (\<exists>t \<in> set (getTempPathPrefixes p). t \<noteq> [] \<and> prefix t (normalizePathForComparison p n)))"
  by (auto simp: isTempDirectory_def Let_def list_ex_iff startsWith_prefix)

text \<open>
  C5. While the current directory can be read, the resolver returns the resolved form of
  the first candidate that is accepted, the candidates being taken in order and those
  without a resolved form passed over. A resolved candidate is skipped exactly when its
  normalised path starts with (or is) one of the temp prefixes and the environment names
  a project path; a candidate that is not skipped is accepted exactly when it is an
  existing directory. When no candidate is accepted the resolver returns the project
  path of the environment, or else the home directory, whether or not it exists.
\<close>

theorem selectWorkingDirectory_resolution:
  "(proc_cwd p = Some d \<longrightarrow>
     selectWorkingDirectory p requestedCwd =
       Inr (case find (accepted p)
                   (List.map_filter (sanitizePath p) (candidates p requestedCwd d)) of
              Some normalized \<Rightarrow> normalized
            | None \<Rightarrow> (case envProjectPath p of Some e \<Rightarrow> e | None \<Rightarrow> proc_homedir p)))
   \<and> accepted p n = (\<not> skipped p n \<and> proc_files p n = Some Directory)
   \<and> skipped p n =
       (envProjectPath p \<noteq> None \<and> n \<noteq> [] \<and>
        (\<exists>t \<in> set (getTempPathPrefixes p).
           t \<noteq> [] \<and> prefix t (normalizePathForComparison p n)))"
  by (auto simp: selectWorkingDirectory_def firstAccepted_find accepted_def skipped_def
        isTempDirectory_prefix statIsDirectory_def split: option.splits)

theorem selectWorkingDirectory_resolution_witness:
  "selectWorkingDirectory
     (demoProc\<lparr>proc_cwd := Some ''/tmp/x'',
               proc_env := [''IDEA_PROJECT_PATH'' \<mapsto> ''/home/u/proj'']\<rparr>)
     (Some ''/tmp/x'') = Inr ''/home/u/proj''
   \<and> selectWorkingDirectory (demoProc\<lparr>proc_cwd := Some ''/tmp/x''\<rparr>) (Some ''/tmp/x'')
       = Inr ''/tmp/x''
   \<and> selectWorkingDirectory
       (demoProc\<lparr>proc_env := [''PROJECT_PATH'' \<mapsto> ''/gone''], proc_files := Map.empty\<rparr>)
       None = Inr ''/gone''"
proof -
  let ?p1 = "demoProc\<lparr>proc_cwd := Some ''/tmp/x'',
               proc_env := [''IDEA_PROJECT_PATH'' \<mapsto> ''/home/u/proj'']\<rparr>"
  let ?p2 = "demoProc\<lparr>proc_cwd := Some ''/tmp/x''\<rparr>"
  let ?p3 = "demoProc\<lparr>proc_env := [''PROJECT_PATH'' \<mapsto> ''/gone''], proc_files := Map.empty\<rparr>"
  let ?rhs = "\<lambda>p req d. (case find (accepted p)
                   (List.map_filter (sanitizePath p) (candidates p req d)) of
              Some normalized \<Rightarrow> normalized
            | None \<Rightarrow> (case envProjectPath p of Some e \<Rightarrow> e | None \<Rightarrow> proc_homedir p))"
  have c1: "proc_cwd ?p1 = Some ''/tmp/x''" and c2: "proc_cwd ?p2 = Some ''/tmp/x''"
    and c3: "proc_cwd ?p3 = Some ''/home/u/proj''"
    by (simp_all add: demoProc_def)
  have e1: "?rhs ?p1 (Some ''/tmp/x'') ''/tmp/x'' = ''/home/u/proj''"
    by code_simp
  have e2: "?rhs ?p2 (Some ''/tmp/x'') ''/tmp/x'' = ''/tmp/x''"
    by code_simp
  have e3: "?rhs ?p3 None ''/home/u/proj'' = ''/gone''"
    by code_simp
  have r1: "selectWorkingDirectory ?p1 (Some ''/tmp/x'') = Inr ''/home/u/proj''"
    using selectWorkingDirectory_resolution [of ?p1 "''/tmp/x''" "Some ''/tmp/x''"] c1 e1
    by simp
  have r2: "selectWorkingDirectory ?p2 (Some ''/tmp/x'') = Inr ''/tmp/x''"
    using selectWorkingDirectory_resolution [of ?p2 "''/tmp/x''" "Some ''/tmp/x''"] c2 e2
    by simp
  have r3: "selectWorkingDirectory ?p3 None = Inr ''/gone''"
    using selectWorkingDirectory_resolution [of ?p3 "''/home/u/proj''" None] c3 e3
    by simp
  show ?thesis using r1 r2 r3 by simp
qed

text \<open>
  C10. The requested paths \<open>undefined\<close> and \<open>null\<close> are treated like an absent path:
  neither is put on the candidate list, which then is the project path of the
  environment (when there is one), the current directory and the home directory, and the
  resolver returns what it returns for an absent path.
\<close>

theorem sentinel_requestedCwd:
  "candidates p (Some ''undefined'') d = candidates p None d
   \<and> candidates p (Some ''null'') d = candidates p None d
   \<and> candidates p None d = (case envProjectPath p of Some e \<Rightarrow> [e] | None \<Rightarrow> []) @ [d, proc_homedir p]
   \<and> selectWorkingDirectory p (Some ''undefined'') = selectWorkingDirectory p None
   \<and> selectWorkingDirectory p (Some ''null'') = selectWorkingDirectory p None"
  by (auto simp: candidates_def selectWorkingDirectory_def split: option.split)

text \<open>
  C7, as stated, fails on the empty sequence: delivered directly, it is returned as it
  is, although the legacy file holds an attachment.
\<close>

theorem loadAttachments_empty_counterexample:
  "loadAttachments demoAttachProc (JArr []) = []
   \<and> loadAttachmentsFromEnv demoAttachProc =
       [JObj [(''fileName'', JStr ''a.png''), (''mediaType'', JStr ''image/png''),
              (''data'', JStr ''AAAA'')]]"
  by code_simp

text \<open>
  C7, amended. The loader returns the sequence delivered directly whenever the payload
  is an array, or a truthy value that is no array and whose \<open>attachments\<close> is an array,
  the empty sequence included. For every other payload, absent or without such an
  array, it returns what the legacy file gives: the array parsed from the file named by
  \<open>CLAUDE_ATTACHMENTS_FILE\<close>, and the empty sequence when the variable is not set, the
  file cannot be read, or its text is not the text of an array.
\<close>

theorem loadAttachments_sources:
  "loadAttachments p (JArr xs) = xs
   \<and> (truthy v \<and> \<not> isArray v \<and> readProp v ''attachments'' = JArr ys \<longrightarrow>
        loadAttachments p v = ys)
   \<and> (\<not> truthy v \<or> (\<not> isArray v \<and> \<not> isArray (readProp v ''attachments'')) \<longrightarrow>
        loadAttachments p v = loadAttachmentsFromEnv p)
   \<and> (getenv p ''CLAUDE_ATTACHMENTS_FILE'' \<noteq> []
        \<and> readFileSync p (getenv p ''CLAUDE_ATTACHMENTS_FILE'') = Inr text
        \<and> JSON_parse p text = Some (JArr arr) \<longrightarrow>
        loadAttachmentsFromEnv p = arr)
   \<and> (loadAttachmentsFromEnv p \<noteq> [] \<longrightarrow>
        getenv p ''CLAUDE_ATTACHMENTS_FILE'' \<noteq> []
        \<and> (\<exists>text. readFileSync p (getenv p ''CLAUDE_ATTACHMENTS_FILE'') = Inr text
               \<and> JSON_parse p text = Some (JArr (loadAttachmentsFromEnv p))))"
proof (intro conjI impI)
  show "loadAttachments p (JArr xs) = xs"
    by (simp add: loadAttachments_def)
next
  assume "truthy v \<and> \<not> isArray v \<and> readProp v ''attachments'' = JArr ys"
  then show "loadAttachments p v = ys"
    by (cases v) (auto simp: loadAttachments_def)
next
  assume "\<not> truthy v \<or> (\<not> isArray v \<and> \<not> isArray (readProp v ''attachments''))"
  then show "loadAttachments p v = loadAttachmentsFromEnv p"
    by (cases v; cases "readProp v ''attachments''") (auto simp: loadAttachments_def)
next
  assume "getenv p ''CLAUDE_ATTACHMENTS_FILE'' \<noteq> []
        \<and> readFileSync p (getenv p ''CLAUDE_ATTACHMENTS_FILE'') = Inr text
        \<and> JSON_parse p text = Some (JArr arr)"
  then show "loadAttachmentsFromEnv p = arr"
    by (simp add: loadAttachmentsFromEnv_def)
next
  assume ne: "loadAttachmentsFromEnv p \<noteq> []"
  then show "getenv p ''CLAUDE_ATTACHMENTS_FILE'' \<noteq> []"
    by (auto simp: loadAttachmentsFromEnv_def Let_def)
  from ne show "\<exists>text. readFileSync p (getenv p ''CLAUDE_ATTACHMENTS_FILE'') = Inr text
               \<and> JSON_parse p text = Some (JArr (loadAttachmentsFromEnv p))"
    by (auto simp: loadAttachmentsFromEnv_def Let_def
          split: if_splits sum.splits option.splits jsval.splits)
qed

theorem loadAttachments_sources_witness:
  "loadAttachments demoAttachProc (JObj [(''attachments'', JArr [JStr ''x''])]) = [JStr ''x'']
   \<and> loadAttachments demoAttachProc (JObj [(''message'', JStr ''hi'')])
       = [JObj [(''fileName'', JStr ''a.png''), (''mediaType'', JStr ''image/png''),
                (''data'', JStr ''AAAA'')]]
   \<and> loadAttachments demoProc JNull = []"
proof -
  let ?w = "JObj [(''attachments'', JArr [JStr ''x''])]"
  let ?m = "JObj [(''message'', JStr ''hi'')]"
  have a: "truthy ?w \<and> \<not> isArray ?w \<and> readProp ?w ''attachments'' = JArr [JStr ''x'']"
    by simp
  have b: "\<not> truthy ?m \<or> (\<not> isArray ?m \<and> \<not> isArray (readProp ?m ''attachments''))"
    by simp
  have c: "\<not> truthy JNull \<or> (\<not> isArray JNull \<and> \<not> isArray (readProp JNull ''attachments''))"
    by simp
  have env: "loadAttachmentsFromEnv demoAttachProc
      = [JObj [(''fileName'', JStr ''a.png''), (''mediaType'', JStr ''image/png''),
               (''data'', JStr ''AAAA'')]]"
    by code_simp
  have none: "loadAttachmentsFromEnv demoProc = []"
    by code_simp
  have 1: "loadAttachments demoAttachProc ?w = [JStr ''x'']"
    using loadAttachments_sources [of demoAttachProc _ ?w "[JStr ''x'']"] a by blast
  have 2: "loadAttachments demoAttachProc ?m = loadAttachmentsFromEnv demoAttachProc"
    using loadAttachments_sources [of demoAttachProc _ ?m] b by blast
  have 3: "loadAttachments demoProc JNull = loadAttachmentsFromEnv demoProc"
    using loadAttachments_sources [of demoProc _ JNull] c by blast
  show ?thesis using 1 2 3 env none by simp
qed

lemma collectMessages_concat:
  "collectMessages p ls acc = acc @ concat (map (lineTurns p) ls)"
  by (induction ls arbitrary: acc) auto

lemma truthy_chain: "truthy (getPropOpt m k) = (truthy m \<and> truthy (readProp m k))"
  by (cases m) (auto simp: getPropOpt_def)

lemma lineTurns_spec:
  "lineTurns p line =
     (case JSON_parse p line of None \<Rightarrow> [] | Some msg \<Rightarrow>
        (case specTurn msg of None \<Rightarrow> [] | Some t \<Rightarrow> [t]))"
proof (cases "JSON_parse p line")
  case None
  then show ?thesis by (simp add: lineTurns_def)
next
  case (Some msg)
  show ?thesis
  proof (cases "nullish msg")
    case True
    then have "getPropOpt msg ''type'' = JUndef" "\<exists>e. getProp msg ''type'' = Inl e"
      by (simp_all add: getPropOpt_def getProp_def)
    with Some show ?thesis
      by (auto simp: lineTurns_def specTurn_def Let_def)
  next
    case False
    then have t: "getProp msg ''type'' = Inr (readProp msg ''type'')"
      and t': "getPropOpt msg ''type'' = readProp msg ''type''"
      and m: "getPropOpt msg ''message'' = readProp msg ''message''"
      by (simp_all add: getProp_def getPropOpt_def)
    have c: "truthy (getPropOpt (readProp msg ''message'') ''content'')
        = (truthy (readProp msg ''message'')
           \<and> truthy (readProp (readProp msg ''message'') ''content''))"
      by (rule truthy_chain)
    have c': "truthy (readProp msg ''message'') \<Longrightarrow>
        getPropOpt (readProp msg ''message'') ''content''
          = readProp (readProp msg ''message'') ''content''"
      by (cases "readProp msg ''message''") (auto simp: getPropOpt_def)
    show ?thesis
      using Some c c' by (auto simp: lineTurns_def specTurn_def Let_def t t' m)
  qed
qed

lemma concat_map_filter_blank:
  "(\<And>x. \<not> P x \<Longrightarrow> f x = []) \<Longrightarrow> concat (map f (filter P xs)) = concat (map f xs)"
  by (induction xs) auto

lemma concat_map_option:
  "concat (map (\<lambda>x. case g x of None \<Rightarrow> [] | Some y \<Rightarrow> [y]) xs) = List.map_filter g xs"
  by (induction xs) (auto simp: List.map_filter_simps split: option.splits)

lemma history_of_text:
  assumes blank: "\<And>l. trim l = [] \<Longrightarrow> JSON_parse p l = None"
  shows "popTrailingUser (collectMessages p (filter (\<lambda>line. trim line \<noteq> []) (splitLines text)) [])
         = specHistory p text"
proof -
  let ?g = "\<lambda>line. case JSON_parse p line of None \<Rightarrow> None | Some msg \<Rightarrow> specTurn msg"
  have lt: "lineTurns p = (\<lambda>x. case ?g x of None \<Rightarrow> [] | Some y \<Rightarrow> [y])"
    by (rule ext) (simp add: lineTurns_spec split: option.splits)
  have "concat (map (lineTurns p) (filter (\<lambda>line. trim line \<noteq> []) (splitLines text)))
        = concat (map (lineTurns p) (splitLines text))"
    by (rule concat_map_filter_blank) (simp add: lineTurns_spec blank)
  also have "\<dots> = List.map_filter ?g (splitLines text)"
    unfolding lt by (rule concat_map_option)
  finally show ?thesis
    by (simp add: collectMessages_concat specHistory_def popTrailingUser_def Let_def)
qed

text \<open>
  C2. Where \<^verbatim>\<open>JSON.parse\<close> rejects blank text, the history loaded for a session is
  empty when the file cannot be read, and is otherwise the history of the file's text as
  the specification words it: all lines read, unparsable lines skipped, the \<open>user\<close> and
  \<open>assistant\<close> entries with a \<open>message.content\<close> kept as turns in file order, and the
  final turn removed when its role is \<open>user\<close>. A missing file gives the empty history.
\<close>

theorem loadSessionHistory_spec:
  "((\<forall>l. trim l = [] \<longrightarrow> JSON_parse p l = None) \<longrightarrow>
      loadSessionHistory p sessionId cwd =
        (case cwdOrCurrent p cwd of
           None \<Rightarrow> []
         | Some base \<Rightarrow>
             (case readFileSync p (sessionFilePath p sessionId base) of
                Inl e \<Rightarrow> []
              | Inr text \<Rightarrow> specHistory p text)))
   \<and> (cwdOrCurrent p cwd = Some base
        \<and> proc_files p (sessionFilePath p sessionId base) = None \<longrightarrow>
      loadSessionHistory p sessionId cwd = [])"
proof (intro conjI impI)
  assume blank: "\<forall>l. trim l = [] \<longrightarrow> JSON_parse p l = None"
  have missing: "\<And>f. \<not> existsSync p f \<Longrightarrow> \<exists>e. readFileSync p f = Inl e"
    by (simp add: existsSync_def readFileSync_def)
  show "loadSessionHistory p sessionId cwd =
       (case cwdOrCurrent p cwd of
          None \<Rightarrow> []
        | Some base \<Rightarrow>
            (case readFileSync p (sessionFilePath p sessionId base) of
               Inl e \<Rightarrow> []
             | Inr text \<Rightarrow> specHistory p text))"
  proof (cases "cwdOrCurrent p cwd")
    case None
    then show ?thesis by (simp add: loadSessionHistory_def)
  next
    case (Some base)
    show ?thesis
    proof (cases "existsSync p (sessionFilePath p sessionId base)")
      case False
      with missing obtain e where "readFileSync p (sessionFilePath p sessionId base) = Inl e"
        by blast
      with False Some show ?thesis by (simp add: loadSessionHistory_def)
    next
      case True
      with Some blank show ?thesis
        by (simp add: loadSessionHistory_def history_of_text split: sum.splits)
    qed
  qed
next
  assume "cwdOrCurrent p cwd = Some base
        \<and> proc_files p (sessionFilePath p sessionId base) = None"
  then show "loadSessionHistory p sessionId cwd = []"
    by (simp add: loadSessionHistory_def existsSync_def)
qed

lemma demoLines_not_blank: "trim l = [] \<Longrightarrow> map_of demoLines l = None"
proof (rule ccontr)
  assume t: "trim l = []" and "map_of demoLines l \<noteq> None"
  then have "l \<in> fst ` set demoLines"
    by (force dest: map_of_SomeD)
  then have "trim l \<noteq> []"
    unfolding demoLines_def by (auto simp: trim_def isWhiteSpace_def)
  with t show False by simp
qed

theorem loadSessionHistory_spec_witness:
  "loadSessionHistory demoHistoryProc ''s1'' None =
     [Turn ''user'' (JStr ''hello''),
      Turn ''assistant'' (JArr [JObj [(''type'', JStr ''text''), (''text'', JStr ''hi'')]])]
   \<and> loadSessionHistory demoHistoryProc ''s2'' None = []"
proof -
  have blank: "\<forall>l. trim l = [] \<longrightarrow> JSON_parse demoHistoryProc l = None"
    by (simp add: demoHistoryProc_def demoProc_def demoLines_not_blank)
  let ?rhs = "case cwdOrCurrent demoHistoryProc None of
          None \<Rightarrow> []
        | Some base \<Rightarrow>
            (case readFileSync demoHistoryProc (sessionFilePath demoHistoryProc ''s1'' base) of
               Inl e \<Rightarrow> []
             | Inr text \<Rightarrow> specHistory demoHistoryProc text)"
  have e1: "?rhs = [Turn ''user'' (JStr ''hello''),
      Turn ''assistant'' (JArr [JObj [(''type'', JStr ''text''), (''text'', JStr ''hi'')]])]"
    by code_simp
  have base: "cwdOrCurrent demoHistoryProc None = Some ''/home/u/proj''"
    by (simp add: cwdOrCurrent_def demoHistoryProc_def demoProc_def)
  have gone: "proc_files demoHistoryProc (sessionFilePath demoHistoryProc ''s2'' ''/home/u/proj'')
      = None"
    by code_simp
  have 1: "loadSessionHistory demoHistoryProc ''s1'' None = ?rhs"
    using loadSessionHistory_spec [of demoHistoryProc "''s1''" None] blank by blast
  have 2: "loadSessionHistory demoHistoryProc ''s2'' None = []"
    using loadSessionHistory_spec [of demoHistoryProc "''s2''" None "''/home/u/proj''"] base gone
    by blast
  show ?thesis using 1 2 e1 by simp
qed

lemma enrich_fields:
  "map_of (enrich p sessionId obj) ''uuid'' = Some (JStr (proc_randomUUID p (proc_uuids p)))"
  "map_of (enrich p sessionId obj) ''sessionId'' = Some (JStr sessionId)"
  "map_of (enrich p sessionId obj) ''timestamp'' = Some (JStr (proc_toISOString p (proc_dates p)))"
  "k \<notin> {''uuid'', ''sessionId'', ''timestamp''} \<Longrightarrow> map_of (enrich p sessionId obj) k = map_of obj k"
  by (simp_all add: enrich_def update_conv')

lemma mkdirSync_result:
  "mkdirSync p dir = Inr pm \<Longrightarrow>
     pm = p\<lparr>proc_files := (proc_files p)(dir \<mapsto> Directory)\<rparr>
     \<and> (\<forall>c. proc_files p dir \<noteq> Some (File c))
     \<and> (proc_files p dir = None \<longrightarrow> \<not> proc_denied p dir)"
  by (auto simp: mkdirSync_def fun_upd_idem split: option.splits node.splits if_splits)

lemma appendFileSync_result:
  "appendFileSync p path data = Inr p' \<Longrightarrow>
     p' = p\<lparr>proc_files := (proc_files p)(path \<mapsto> File (fileText p path @ data))\<rparr>
     \<and> proc_files p path \<noteq> Some Directory \<and> \<not> proc_denied p path"
  by (auto simp: appendFileSync_def fileText_def split: option.splits node.splits if_splits)

lemma appendFileSync_ok:
  "proc_files p path \<noteq> Some Directory \<Longrightarrow> \<not> proc_denied p path \<Longrightarrow>
     appendFileSync p path data
       = Inr (p\<lparr>proc_files := (proc_files p)(path \<mapsto> File (fileText p path @ data))\<rparr>)"
  by (auto simp: appendFileSync_def fileText_def split: option.splits node.splits)

lemma mkdirSync_fields:
  "mkdirSync p dir = Inr pm \<Longrightarrow>
     proc_out pm = proc_out p \<and> proc_uuids pm = proc_uuids p \<and> proc_dates pm = proc_dates p
     \<and> proc_randomUUID pm = proc_randomUUID p \<and> proc_toISOString pm = proc_toISOString p
     \<and> proc_denied pm = proc_denied p"
  by (auto simp: mkdirSync_def split: option.splits node.splits if_splits)

lemma enrich_cong:
  "proc_uuids q = proc_uuids p \<Longrightarrow> proc_dates q = proc_dates p \<Longrightarrow>
   proc_randomUUID q = proc_randomUUID p \<Longrightarrow> proc_toISOString q = proc_toISOString p \<Longrightarrow>
   enrich q sessionId obj = enrich p sessionId obj"
  by (simp add: enrich_def)

text \<open>What a call that prints its \<^verbatim>\<open>[PERSIST]\<close> line has done.\<close>

lemma persist_success:
  assumes "proc_out (persistJsonlMessage p sessionId cwd obj) = proc_out p @ [Persist f]"
  shows "\<exists>base dir.
           cwdOrCurrent p cwd = Some base
         \<and> dir = proc_join p [proc_join p [proc_homedir p, ''.claude'', ''projects''],
                              replaceNonAlphaNumeric base]
         \<and> f = proc_join p [dir, sessionId @ ''.jsonl'']
         \<and> f \<noteq> dir
         \<and> (\<forall>c. proc_files p dir \<noteq> Some (File c))
         \<and> (proc_files p dir = None \<longrightarrow> \<not> proc_denied p dir)
         \<and> proc_files p f \<noteq> Some Directory
         \<and> \<not> proc_denied p f
         \<and> persistJsonlMessage p sessionId cwd obj
             = p\<lparr>proc_files := (proc_files p)(dir \<mapsto> Directory,
                    f \<mapsto> File (fileText p f
                                @ JSON_stringify p (JObj (enrich p sessionId obj)) @ [CHR 0x0A])),
                 proc_uuids := Suc (proc_uuids p),
                 proc_dates := Suc (proc_dates p),
                 proc_out := proc_out p @ [Persist f]\<rparr>"
proof -
  let ?p1 = "persistJsonlMessage p sessionId cwd obj"
  let ?projects = "proc_join p [proc_homedir p, ''.claude'', ''projects'']"
  from assms have grown: "proc_out ?p1 \<noteq> proc_out p"
    by simp
  have "cwdOrCurrent p cwd \<noteq> None"
  proof
    assume "cwdOrCurrent p cwd = None"
    then have "?p1 = p" by (simp add: persistJsonlMessage_def)
    with grown show False by simp
  qed
  then obtain base where base: "cwdOrCurrent p cwd = Some base"
    by blast
  let ?dir = "proc_join p [?projects, replaceNonAlphaNumeric base]"
  let ?file = "proc_join p [?dir, sessionId @ ''.jsonl'']"
  have "\<exists>pm. mkdirSync p ?dir = Inr pm"
  proof (cases "mkdirSync p ?dir")
    case (Inl e)
    then have "?p1 = p" using base by (simp add: persistJsonlMessage_def)
    with grown show ?thesis by simp
  next
    case (Inr pm)
    then show ?thesis by blast
  qed
  then obtain pm where pm: "mkdirSync p ?dir = Inr pm"
    by blast
  note m = mkdirSync_result [OF pm]
  note mf = mkdirSync_fields [OF pm]
  let ?p2 = "pm\<lparr>proc_uuids := Suc (proc_uuids pm), proc_dates := Suc (proc_dates pm)\<rparr>"
  let ?line = "JSON_stringify p (JObj (enrich pm sessionId obj)) @ [CHR 0x0A]"
  have "\<exists>p3. appendFileSync ?p2 ?file ?line = Inr p3"
  proof (cases "appendFileSync ?p2 ?file ?line")
    case (Inl e)
    then have "?p1 = ?p2" using base pm by (simp add: persistJsonlMessage_def Let_def)
    then have "proc_out ?p1 = proc_out p" using mf by simp
    with grown show ?thesis by simp
  next
    case (Inr p3)
    then show ?thesis by blast
  qed
  then obtain p3 where p3: "appendFileSync ?p2 ?file ?line = Inr p3"
    by blast
  note a = appendFileSync_result [OF p3]
  have res: "?p1 = p3\<lparr>proc_out := proc_out p3 @ [Persist ?file]\<rparr>"
    using base pm p3 by (simp add: persistJsonlMessage_def Let_def)
  have en: "enrich pm sessionId obj = enrich p sessionId obj"
    using mf by (intro enrich_cong) simp_all
  have p3_eq: "p3 = ?p2\<lparr>proc_files := (proc_files ?p2)(?file \<mapsto> File (fileText ?p2 ?file @ ?line))\<rparr>"
    using a by blast
  have out3: "proc_out p3 = proc_out p"
    by (subst p3_eq) (simp add: mf)
  have f: "f = ?file"
    using assms res out3 by simp
  have pm_eq: "pm = p\<lparr>proc_files := (proc_files p)(?dir \<mapsto> Directory)\<rparr>"
    using m by blast
  have dir_pm: "proc_files pm ?dir = Some Directory"
    by (subst pm_eq) simp
  have nd: "proc_files ?p2 ?file \<noteq> Some Directory"
    using a by blast
  then have ne: "?file \<noteq> ?dir"
    using dir_pm by auto
  have files_f: "proc_files ?p2 ?file = proc_files p ?file"
    using ne by (subst pm_eq) simp
  have ft: "fileText ?p2 ?file = fileText p ?file"
    using files_f by (simp add: fileText_def)
  have den: "\<not> proc_denied p ?file"
    using a mf by simp
  have final: "?p1 = p\<lparr>proc_files := (proc_files p)(?dir \<mapsto> Directory,
                    ?file \<mapsto> File (fileText p ?file
                                @ JSON_stringify p (JObj (enrich p sessionId obj)) @ [CHR 0x0A])),
                 proc_uuids := Suc (proc_uuids p),
                 proc_dates := Suc (proc_dates p),
                 proc_out := proc_out p @ [Persist ?file]\<rparr>"
    using ne by (simp add: res p3_eq pm_eq fileText_def enrich_def)
  show ?thesis
    apply (rule exI [of _ base], rule exI [of _ ?dir])
    using base f ne m nd files_f den final by simp
qed

lemma persist_again:
  assumes base: "cwdOrCurrent p cwd = Some base"
    and dir: "proc_files p (proc_join p [proc_join p [proc_homedir p, ''.claude'', ''projects''],
                              replaceNonAlphaNumeric base]) = Some Directory"
    and nodirectory: "proc_files p (proc_join p [proc_join p [proc_join p [proc_homedir p, ''.claude'', ''projects''],
                              replaceNonAlphaNumeric base], sessionId @ ''.jsonl'']) \<noteq> Some Directory"
    and den: "\<not> proc_denied p (proc_join p [proc_join p [proc_join p [proc_homedir p, ''.claude'', ''projects''],
                              replaceNonAlphaNumeric base], sessionId @ ''.jsonl''])"
  shows "persistJsonlMessage p sessionId cwd obj =
           p\<lparr>proc_files := (proc_files p)
                  (proc_join p [proc_join p [proc_join p [proc_homedir p, ''.claude'', ''projects''],
                              replaceNonAlphaNumeric base], sessionId @ ''.jsonl''] \<mapsto>
                   File (fileText p (proc_join p [proc_join p [proc_join p [proc_homedir p, ''.claude'', ''projects''],
                              replaceNonAlphaNumeric base], sessionId @ ''.jsonl''])
                         @ JSON_stringify p (JObj (enrich p sessionId obj)) @ [CHR 0x0A])),
              proc_uuids := Suc (proc_uuids p),
              proc_dates := Suc (proc_dates p),
              proc_out := proc_out p @
                [Persist (proc_join p [proc_join p [proc_join p [proc_homedir p, ''.claude'', ''projects''],
                              replaceNonAlphaNumeric base], sessionId @ ''.jsonl''])]\<rparr>"
proof -
  let ?dir = "proc_join p [proc_join p [proc_homedir p, ''.claude'', ''projects''],
                              replaceNonAlphaNumeric base]"
  let ?file = "proc_join p [?dir, sessionId @ ''.jsonl'']"
  let ?p2 = "p\<lparr>proc_uuids := Suc (proc_uuids p), proc_dates := Suc (proc_dates p)\<rparr>"
  have m: "mkdirSync p ?dir = Inr p"
    using dir by (simp add: mkdirSync_def)
  have a: "appendFileSync ?p2 ?file (JSON_stringify p (JObj (enrich p sessionId obj)) @ [CHR 0x0A])
      = Inr (?p2\<lparr>proc_files := (proc_files ?p2)(?file \<mapsto>
               File (fileText ?p2 ?file @ JSON_stringify p (JObj (enrich p sessionId obj)) @ [CHR 0x0A]))\<rparr>)"
    using nodirectory den by (intro appendFileSync_ok) simp_all
  show ?thesis
    by (simp add: persistJsonlMessage_def Let_def base m a fileText_def)
qed

text \<open>
  C9. An append that succeeds (it prints its \<^verbatim>\<open>[PERSIST]\<close> line) adds one line to the
  end of the session file: the serialised input entry with \<open>uuid\<close> set to the next
  identifier of \<^verbatim>\<open>randomUUID\<close>, \<open>sessionId\<close> to the session and \<open>timestamp\<close> to the
  ISO text of the current date, every other field as given. Appending the same entry again
  succeeds too and adds a second line after the first; the two entries agree on every
  field but those three, what was in the file before stays in front, and, as
  \<^verbatim>\<open>randomUUID\<close> does not repeat itself, their identifiers differ.
\<close>

theorem persistJsonlMessage_appends:
  "proc_out (persistJsonlMessage p sessionId cwd obj) = proc_out p @ [Persist f] \<longrightarrow>
     (let e1 = enrich p sessionId obj;
          p1 = persistJsonlMessage p sessionId cwd obj;
          e2 = enrich p1 sessionId obj;
          p2 = persistJsonlMessage p1 sessionId cwd obj;
          line1 = JSON_stringify p (JObj e1) @ [CHR 0x0A];
          line2 = JSON_stringify p (JObj e2) @ [CHR 0x0A]
      in proc_files p1 f = Some (File (fileText p f @ line1))
       \<and> map_of e1 ''uuid'' = Some (JStr (proc_randomUUID p (proc_uuids p)))
       \<and> map_of e1 ''sessionId'' = Some (JStr sessionId)
       \<and> map_of e1 ''timestamp'' = Some (JStr (proc_toISOString p (proc_dates p)))
       \<and> (\<forall>k. k \<notin> {''uuid'', ''sessionId'', ''timestamp''} \<longrightarrow>
              map_of e1 k = map_of obj k \<and> map_of e2 k = map_of obj k)
       \<and> proc_out p2 = proc_out p1 @ [Persist f]
       \<and> proc_files p2 f = Some (File (fileText p f @ line1 @ line2))
       \<and> (inj (proc_randomUUID p) \<longrightarrow> map_of e1 ''uuid'' \<noteq> map_of e2 ''uuid''))"
proof
  assume ok: "proc_out (persistJsonlMessage p sessionId cwd obj) = proc_out p @ [Persist f]"
  let ?e1 = "enrich p sessionId obj"
  let ?line1 = "JSON_stringify p (JObj ?e1) @ [CHR 0x0A]"
  from persist_success [OF ok] obtain base dir where
    base: "cwdOrCurrent p cwd = Some base"
    and dir: "dir = proc_join p [proc_join p [proc_homedir p, ''.claude'', ''projects''],
                              replaceNonAlphaNumeric base]"
    and f: "f = proc_join p [dir, sessionId @ ''.jsonl'']"
    and ne: "f \<noteq> dir"
    and nodir: "proc_files p f \<noteq> Some Directory"
    and den: "\<not> proc_denied p f"
    and p1: "persistJsonlMessage p sessionId cwd obj
             = p\<lparr>proc_files := (proc_files p)(dir \<mapsto> Directory, f \<mapsto> File (fileText p f @ ?line1)),
                 proc_uuids := Suc (proc_uuids p),
                 proc_dates := Suc (proc_dates p),
                 proc_out := proc_out p @ [Persist f]\<rparr>"
    by blast
  let ?p1 = "p\<lparr>proc_files := (proc_files p)(dir \<mapsto> Directory, f \<mapsto> File (fileText p f @ ?line1)),
                 proc_uuids := Suc (proc_uuids p),
                 proc_dates := Suc (proc_dates p),
                 proc_out := proc_out p @ [Persist f]\<rparr>"
  let ?e2 = "enrich ?p1 sessionId obj"
  let ?line2 = "JSON_stringify p (JObj ?e2) @ [CHR 0x0A]"
  have base1: "cwdOrCurrent ?p1 cwd = Some base"
    using base by (auto simp: cwdOrCurrent_def split: option.splits)
  have p2: "persistJsonlMessage ?p1 sessionId cwd obj =
      ?p1\<lparr>proc_files := (proc_files ?p1)(f \<mapsto> File (fileText ?p1 f @ ?line2)),
          proc_uuids := Suc (proc_uuids ?p1),
          proc_dates := Suc (proc_dates ?p1),
          proc_out := proc_out ?p1 @ [Persist f]\<rparr>"
    using persist_again [of ?p1 cwd base sessionId obj] base1 ne den
    by (simp add: dir [symmetric] f [symmetric])
  have files1: "proc_files ?p1 f = Some (File (fileText p f @ ?line1))"
    by simp
  have ft1: "fileText ?p1 f = fileText p f @ ?line1"
    unfolding fileText_def [of ?p1] by simp
  have files2: "proc_files (persistJsonlMessage ?p1 sessionId cwd obj) f
      = Some (File (fileText p f @ ?line1 @ ?line2))"
    unfolding p2 ft1 by simp
  have out2: "proc_out (persistJsonlMessage ?p1 sessionId cwd obj) = proc_out ?p1 @ [Persist f]"
    by (simp add: p2)
  have u2: "map_of ?e2 ''uuid'' = Some (JStr (proc_randomUUID p (Suc (proc_uuids p))))"
    by (simp add: enrich_fields)
  have fresh: "inj (proc_randomUUID p) \<longrightarrow> map_of ?e1 ''uuid'' \<noteq> map_of ?e2 ''uuid''"
    by (auto simp: enrich_fields dest: injD)
  have same: "\<forall>k. k \<notin> {''uuid'', ''sessionId'', ''timestamp''} \<longrightarrow>
              map_of ?e1 k = map_of obj k \<and> map_of ?e2 k = map_of obj k"
    by (simp add: enrich_fields)
  show "let e1 = enrich p sessionId obj;
          p1 = persistJsonlMessage p sessionId cwd obj;
          e2 = enrich p1 sessionId obj;
          p2 = persistJsonlMessage p1 sessionId cwd obj;
          line1 = JSON_stringify p (JObj e1) @ [CHR 0x0A];
          line2 = JSON_stringify p (JObj e2) @ [CHR 0x0A]
      in proc_files p1 f = Some (File (fileText p f @ line1))
       \<and> map_of e1 ''uuid'' = Some (JStr (proc_randomUUID p (proc_uuids p)))
       \<and> map_of e1 ''sessionId'' = Some (JStr sessionId)
       \<and> map_of e1 ''timestamp'' = Some (JStr (proc_toISOString p (proc_dates p)))
       \<and> (\<forall>k. k \<notin> {''uuid'', ''sessionId'', ''timestamp''} \<longrightarrow>
              map_of e1 k = map_of obj k \<and> map_of e2 k = map_of obj k)
       \<and> proc_out p2 = proc_out p1 @ [Persist f]
       \<and> proc_files p2 f = Some (File (fileText p f @ line1 @ line2))
       \<and> (inj (proc_randomUUID p) \<longrightarrow> map_of e1 ''uuid'' \<noteq> map_of e2 ''uuid'')"
    unfolding Let_def p1
    using files1 files2 out2 fresh same by (simp add: enrich_fields)
qed

theorem persistJsonlMessage_appends_witness:
  "proc_files
     (persistJsonlMessage
        (persistJsonlMessage demoProc ''s1'' None
           [(''type'', JStr ''user''), (''message'', JObj [(''content'', JStr ''hello'')])])
        ''s1'' None
        [(''type'', JStr ''user''), (''message'', JObj [(''content'', JStr ''hello'')])])
     ''/home/u/.claude/projects/-home-u-proj/s1.jsonl''
   = Some (File (''{entry uuid-}'' @ [CHR 0x0A] @ ''{entry uuid-i}'' @ [CHR 0x0A]))
   \<and> map_of (enrich demoProc ''s1''
                [(''type'', JStr ''user''), (''message'', JObj [(''content'', JStr ''hello'')])])
         ''uuid''
       \<noteq> map_of (enrich
                  (persistJsonlMessage demoProc ''s1'' None
                     [(''type'', JStr ''user''), (''message'', JObj [(''content'', JStr ''hello'')])])
                  ''s1''
                  [(''type'', JStr ''user''), (''message'', JObj [(''content'', JStr ''hello'')])])
           ''uuid''"
proof -
  let ?obj = "[(''type'', JStr ''user''), (''message'', JObj [(''content'', JStr ''hello'')])]"
  let ?f = "''/home/u/.claude/projects/-home-u-proj/s1.jsonl''"
  let ?p1 = "persistJsonlMessage demoProc ''s1'' None ?obj"
  have ok: "proc_out ?p1 = proc_out demoProc @ [Persist ?f]"
    by code_simp
  have content_eq: "fileText demoProc ?f
        @ (JSON_stringify demoProc (JObj (enrich demoProc ''s1'' ?obj)) @ [CHR 0x0A])
        @ (JSON_stringify demoProc (JObj (enrich ?p1 ''s1'' ?obj)) @ [CHR 0x0A])
      = ''{entry uuid-}'' @ [CHR 0x0A] @ ''{entry uuid-i}'' @ [CHR 0x0A]"
    by code_simp
  have fresh: "inj (proc_randomUUID demoProc)"
    by (auto simp: demoProc_def inj_def)
  from persistJsonlMessage_appends [of demoProc "''s1''" None ?obj ?f] ok fresh
  have "proc_files (persistJsonlMessage ?p1 ''s1'' None ?obj) ?f
      = Some (File (fileText demoProc ?f
        @ (JSON_stringify demoProc (JObj (enrich demoProc ''s1'' ?obj)) @ [CHR 0x0A])
        @ (JSON_stringify demoProc (JObj (enrich ?p1 ''s1'' ?obj)) @ [CHR 0x0A])))
     \<and> map_of (enrich demoProc ''s1'' ?obj) ''uuid'' \<noteq> map_of (enrich ?p1 ''s1'' ?obj) ''uuid''"
    unfolding Let_def by blast
  then show ?thesis
    unfolding content_eq .
qed

lemma growsD:
  assumes "grows ok m"
  obtains evs where "proc_out (snd (m p)) = proc_out p @ evs" "list_all ok evs"
    "proc_query (snd (m p)) = proc_query p" "proc_create (snd (m p)) = proc_create p"
  using assms unfolding grows_def by blast

lemma grows_returns [simp]: "grows ok (returns x)"
  by (simp add: grows_def returns_def)

lemma grows_throws [simp]: "grows ok (throws e)"
  by (simp add: grows_def throws_def)

lemma grows_compute [simp]: "grows ok (compute f)"
  by (simp add: grows_def compute_def split: sum.split)

lemma grows_chdir [simp]: "grows ok (chdir d)"
  by (simp add: grows_def chdir_def split: option.split)

lemma grows_randomUUID [simp]: "grows ok randomUUID"
  by (simp add: grows_def randomUUID_def)

lemma grows_emit: "ok ev \<Longrightarrow> grows ok (emit ev)"
  by (simp add: grows_def emit_def)

lemma grows_andThen:
  assumes m: "grows ok m" and f: "\<And>x. grows ok (f x)"
  shows "grows ok (andThen m f)"
  unfolding grows_def
proof (intro allI)
  fix p
  obtain r p1 where mp: "m p = (r, p1)" by (cases "m p")
  from growsD [OF m, of p] mp obtain evs1 where
    1: "proc_out p1 = proc_out p @ evs1" "list_all ok evs1"
       "proc_query p1 = proc_query p" "proc_create p1 = proc_create p"
    by auto
  show "(\<exists>evs. proc_out (snd (andThen m f p)) = proc_out p @ evs \<and> list_all ok evs)
          \<and> proc_query (snd (andThen m f p)) = proc_query p
          \<and> proc_create (snd (andThen m f p)) = proc_create p"
  proof (cases r)
    case (Returns x)
    from growsD [OF f, of x p1] obtain evs2 where
      2: "proc_out (snd (f x p1)) = proc_out p1 @ evs2" "list_all ok evs2"
         "proc_query (snd (f x p1)) = proc_query p1" "proc_create (snd (f x p1)) = proc_create p1"
      by auto
    have "andThen m f p = f x p1"
      using mp Returns by (simp add: andThen_def)
    with 1 2 show ?thesis by simp
  next
    case (Throws e)
    then have "andThen m f p = (Throws e, p1)"
      using mp by (simp add: andThen_def)
    with 1 show ?thesis by simp
  next
    case NeverReturns
    then have "andThen m f p = (NeverReturns, p1)"
      using mp by (simp add: andThen_def)
    with 1 show ?thesis by simp
  qed
qed

lemma grows_tryCatch:
  assumes m: "grows ok m" and h: "\<And>e. grows ok (h e)"
  shows "grows ok (tryCatch m h)"
  unfolding grows_def
proof (intro allI)
  fix p
  obtain r p1 where mp: "m p = (r, p1)" by (cases "m p")
  from growsD [OF m, of p] mp obtain evs1 where
    1: "proc_out p1 = proc_out p @ evs1" "list_all ok evs1"
       "proc_query p1 = proc_query p" "proc_create p1 = proc_create p"
    by auto
  show "(\<exists>evs. proc_out (snd (tryCatch m h p)) = proc_out p @ evs \<and> list_all ok evs)
          \<and> proc_query (snd (tryCatch m h p)) = proc_query p
          \<and> proc_create (snd (tryCatch m h p)) = proc_create p"
  proof (cases r)
    case (Throws e)
    from growsD [OF h, of e p1] obtain evs2 where
      2: "proc_out (snd (h e p1)) = proc_out p1 @ evs2" "list_all ok evs2"
         "proc_query (snd (h e p1)) = proc_query p1" "proc_create (snd (h e p1)) = proc_create p1"
      by auto
    have "tryCatch m h p = h e p1"
      using mp Throws by (simp add: tryCatch_def)
    with 1 2 show ?thesis by simp
  next
    case (Returns x)
    then have "tryCatch m h p = (Returns x, p1)"
      using mp by (simp add: tryCatch_def)
    with 1 show ?thesis by simp
  next
    case NeverReturns
    then have "tryCatch m h p = (NeverReturns, p1)"
      using mp by (simp add: tryCatch_def)
    with 1 show ?thesis by simp
  qed
qed

lemma grows_if: "grows ok a \<Longrightarrow> grows ok b \<Longrightarrow> grows ok (if c then a else b)"
  by simp

lemma grows_relayBlocks: "(\<And>v. ok (Content v)) \<Longrightarrow> grows ok (relayBlocks blocks)"
  by (induction blocks) (auto intro!: grows_andThen grows_emit)

lemma grows_relayMessage:
  assumes "\<And>v. ok (Content v)" "\<And>v. ok (Message v)" "\<And>v. ok (SessionId v)"
  shows "grows ok (relayMessage msg sid)"
  unfolding relayMessage_def
  by (auto intro!: grows_andThen grows_emit grows_relayBlocks assms split: jsval.split)

lemma grows_relayMessages:
  assumes "\<And>v. ok (Content v)" "\<And>v. ok (Message v)" "\<And>v. ok (SessionId v)"
  shows "grows ok (relayMessages msgs sid)"
  by (induction msgs arbitrary: sid) (auto intro!: grows_andThen grows_relayMessage assms)

lemma grows_streamEnd [simp]: "grows ok (streamEnd ending)"
  by (cases ending) (simp_all add: streamEnd_def, simp add: grows_def)

lemma grows_announceResume: "(\<And>r. ok (Resuming r)) \<Longrightarrow> grows ok (announceResume resume)"
  by (auto simp: announceResume_def intro: grows_emit split: option.split)

lemma grows_reportFailure: "(\<And>v. ok (Terminal v)) \<Longrightarrow> grows ok (reportFailure e)"
  by (simp add: reportFailure_def grows_emit)

lemma grows_emit_of: "(\<And>p. ok (f p)) \<Longrightarrow> grows ok (\<lambda>p. emit (f p) p)"
  by (simp add: grows_def emit_def)

lemma appendFileSync_fields:
  "appendFileSync p path data = Inr p' \<Longrightarrow>
     proc_out p' = proc_out p \<and> proc_query p' = proc_query p \<and> proc_create p' = proc_create p"
  by (auto simp: appendFileSync_def split: option.splits node.splits if_splits)

lemma mkdirSync_sdk_fields:
  "mkdirSync p dir = Inr pm \<Longrightarrow> proc_query pm = proc_query p \<and> proc_create pm = proc_create p"
  by (auto simp: mkdirSync_def split: option.splits node.splits if_splits)

lemma persist_frame:
  "proc_query (persistJsonlMessage p sessionId cwd obj) = proc_query p
   \<and> proc_create (persistJsonlMessage p sessionId cwd obj) = proc_create p
   \<and> (proc_out (persistJsonlMessage p sessionId cwd obj) = proc_out p
      \<or> (\<exists>f. proc_out (persistJsonlMessage p sessionId cwd obj) = proc_out p @ [Persist f]))"
proof (cases "cwdOrCurrent p cwd")
  case None
  then show ?thesis by (simp add: persistJsonlMessage_def)
next
  case (Some base)
  let ?dir = "proc_join p [proc_join p [proc_homedir p, ''.claude'', ''projects''],
                            replaceNonAlphaNumeric base]"
  show ?thesis
  proof (cases "mkdirSync p ?dir")
    case (Inl e)
    with Some show ?thesis by (simp add: persistJsonlMessage_def)
  next
    case (Inr pm)
    note mf = mkdirSync_fields [OF Inr] mkdirSync_sdk_fields [OF Inr]
    let ?p2 = "pm\<lparr>proc_uuids := Suc (proc_uuids pm), proc_dates := Suc (proc_dates pm)\<rparr>"
    let ?file = "proc_join p [?dir, sessionId @ ''.jsonl'']"
    let ?line = "JSON_stringify p (JObj (enrich pm sessionId obj)) @ [CHR 0x0A]"
    show ?thesis
    proof (cases "appendFileSync ?p2 ?file ?line")
      case (Inl e)
      then have "persistJsonlMessage p sessionId cwd obj = ?p2"
        using Some Inr by (simp add: persistJsonlMessage_def Let_def)
      then show ?thesis using mf by simp
    next
      case (Inr p3)
      note af = appendFileSync_fields [OF Inr]
      have "persistJsonlMessage p sessionId cwd obj = p3\<lparr>proc_out := proc_out p3 @ [Persist ?file]\<rparr>"
        using Some \<open>mkdirSync p ?dir = Inr pm\<close> Inr by (simp add: persistJsonlMessage_def Let_def)
      then show ?thesis using mf af by simp
    qed
  qed
qed

lemma grows_persist:
  assumes "\<And>f. ok (Persist f)"
  shows "grows ok (\<lambda>p. (Returns (), persistJsonlMessage p sessionId cwd obj))"
  unfolding grows_def
proof (intro allI)
  fix p
  from persist_frame [of p sessionId cwd obj] assms
  show "(\<exists>evs. proc_out (snd (Returns (), persistJsonlMessage p sessionId cwd obj))
                 = proc_out p @ evs \<and> list_all ok evs)
          \<and> proc_query (snd (Returns (), persistJsonlMessage p sessionId cwd obj)) = proc_query p
          \<and> proc_create (snd (Returns (), persistJsonlMessage p sessionId cwd obj)) = proc_create p"
    by auto
qed

lemma grows_read: "grows ok (\<lambda>p. (Returns (f p), p))"
  by (simp add: grows_def)

lemma grows_awaitCreate [simp]: "grows ok (awaitCreate args)"
  by (simp add: grows_def awaitCreate_def split: create_call.split)

lemma grows_sendMessage_context:
  assumes "ok MessageStart" "\<And>r. ok (Resuming r)"
  shows "grows ok (sendMessage_context message resume cwd permissionMode model)"
  unfolding sendMessage_context_def
  by (intro grows_andThen grows_emit grows_announceResume grows_compute grows_chdir
        grows_returns assms)


lemma grows_sdk_context:
  assumes "ok MessageStart" "\<And>v. ok (SessionId v)" "\<And>v. ok (Message v)" "\<And>f. ok (Persist f)"
  shows "grows ok (sendMessageWithAnthropicSDK_context message resume cwd permissionMode model
                     key url)"
  unfolding sendMessageWithAnthropicSDK_context_def Let_def
  by (intro grows_andThen grows_emit grows_compute grows_chdir grows_randomUUID
        grows_returns grows_persist grows_read assms)
     (auto split: option.split)

lemma grows_reportApiError:
  assumes "\<And>v. ok (Message v)" "\<And>v. ok (Content v)" "ok MessageEnd" "\<And>v. ok (Terminal v)"
  shows "grows ok (reportApiError sessionId modelId response)"
  unfolding reportApiError_def Let_def
  by (intro grows_andThen grows_emit grows_randomUUID assms)

lemma grows_reportResponse:
  assumes "\<And>v. ok (Message v)" "\<And>v. ok (Content v)" "ok MessageEnd" "\<And>v. ok (Terminal v)"
    "\<And>f. ok (Persist f)"
  shows "grows ok (reportResponse sessionId cwd modelId response)"
  unfolding reportResponse_def Let_def
  by (intro grows_andThen grows_emit grows_emit_of grows_randomUUID grows_persist
        grows_relayBlocks grows_compute assms)
     (auto split: option.split)

lemma yields_returns [simp]: "yields [] (returns x)"
  by (simp add: yields_def returns_def)

lemma yields_compute [simp]: "yields [] (compute f)"
  by (auto simp: yields_def compute_def split: sum.splits)

lemma yields_chdir [simp]: "yields [] (chdir d)"
  by (auto simp: yields_def chdir_def split: option.splits)

lemma yields_emit [simp]: "yields [ev] (emit ev)"
  by (auto simp: yields_def emit_def)

lemma yields_announceResume [simp]: "yields (resumingLine resume) (announceResume resume)"
  by (auto simp: yields_def announceResume_def resumingLine_def emit_def returns_def
        split: option.splits if_splits)

lemma yields_andThen:
  assumes m: "yields evs1 m" and f: "\<And>x. yields evs2 (f x)"
  shows "yields (evs1 @ evs2) (andThen m f)"
  unfolding yields_def
proof (intro allI impI)
  fix p y p2
  assume run: "andThen m f p = (Returns y, p2)"
  obtain r p1 where mp: "m p = (r, p1)" by (cases "m p")
  from run mp obtain x where r: "r = Returns x" and fx: "f x p1 = (Returns y, p2)"
    by (cases r) (auto simp: andThen_def)
  from m mp r have "proc_out p1 = proc_out p @ evs1"
    by (simp add: yields_def)
  moreover from f fx have "proc_out p2 = proc_out p1 @ evs2"
    by (simp add: yields_def)
  ultimately show "proc_out p2 = proc_out p @ evs1 @ evs2"
    by simp
qed

lemma yields_sendMessage_context:
  "yields (MessageStart # resumingLine resume)
     (sendMessage_context message resume cwd permissionMode model)"
proof -
  have "yields ([] @ [] @ [] @ [MessageStart] @ [] @ [] @ [] @ resumingLine resume @ [])
     (sendMessage_context message resume cwd permissionMode model)"
    unfolding sendMessage_context_def
    by (intro yields_andThen yields_compute yields_emit yields_chdir yields_announceResume
          yields_returns)
  then show ?thesis by simp
qed


text \<open>Running a \<^verbatim>\<open>try\<close> block whose first part has returned.\<close>

lemma tryCatch_andThen_Returns:
  "m p = (Returns x, p1) \<Longrightarrow> tryCatch (andThen m f) h p = tryCatch (f x) h p1"
  by (simp add: tryCatch_def andThen_def)

lemma tryCatch_andThen_Throws:
  "m p = (Throws e, p1) \<Longrightarrow> tryCatch (andThen m f) h p = h e p1"
  by (simp add: tryCatch_def andThen_def)

lemma tryCatch_andThen_NeverReturns:
  "m p = (NeverReturns, p1) \<Longrightarrow> tryCatch (andThen m f) h p = (NeverReturns, p1)"
  by (simp add: tryCatch_def andThen_def)


text \<open>The native delivery, with its \<^verbatim>\<open>catch\<close>: the request first, no request after it.\<close>

lemma deliverNative_out:
  "\<exists>evs. proc_out (snd (tryCatch (deliverNative a resume) reportFailure p))
            = proc_out p @ CallQuery a # evs
         \<and> list_all (\<lambda>e. \<not> isCall e) evs"
proof -
  let ?p2 = "p\<lparr>proc_out := proc_out p @ [CallQuery a]\<rparr>"
  let ?rest = "andThen (compute (\<lambda>p. awaitRace (proc_query p a)))
          (\<lambda>result.
             case result of MsgStream msgs ending \<Rightarrow>
               andThen (relayMessages msgs
                          (case resume of Some r \<Rightarrow> JStr r | None \<Rightarrow> JNull))
                 (\<lambda>currentSessionId.
                    andThen (streamEnd ending)
                      (\<lambda>u. andThen (emit MessageEnd)
                             (\<lambda>u. emit (Terminal (successRecord currentSessionId))))))"
  have run: "tryCatch (deliverNative a resume) reportFailure p = tryCatch ?rest reportFailure ?p2"
    unfolding deliverNative_def
    by (rule tryCatch_andThen_Returns) (simp add: emit_def)
  have "grows (\<lambda>e. \<not> isCall e) (tryCatch ?rest reportFailure)"
    by (intro grows_tryCatch grows_andThen grows_compute grows_reportFailure)
       (auto intro!: grows_andThen grows_relayMessages grows_emit split: msg_stream.split)
  from growsD [OF this, of ?p2] obtain evs where
    "proc_out (snd (tryCatch ?rest reportFailure ?p2)) = proc_out ?p2 @ evs"
    "list_all (\<lambda>e. \<not> isCall e) evs"
    by blast
  then show ?thesis
    unfolding run by auto
qed






text \<open>The resolver does not look at what was printed.\<close>

lemma normalizePathForComparison_out [simp]:
  "normalizePathForComparison (p\<lparr>proc_out := x\<rparr>) = normalizePathForComparison p"
  by (rule ext) (simp add: normalizePathForComparison_def)

lemma getenv_out [simp]: "getenv (p\<lparr>proc_out := x\<rparr>) = getenv p"
  by (rule ext) (simp add: getenv_def)

lemma getTempPathPrefixes_out [simp]:
  "getTempPathPrefixes (p\<lparr>proc_out := x\<rparr>) = getTempPathPrefixes p"
  by (simp add: getTempPathPrefixes_def Let_def)

lemma isTempDirectory_out [simp]:
  "isTempDirectory (p\<lparr>proc_out := x\<rparr>) n = isTempDirectory p n"
  by (simp add: isTempDirectory_def)

lemma envProjectPath_out [simp]: "envProjectPath (p\<lparr>proc_out := x\<rparr>) = envProjectPath p"
  by (simp add: envProjectPath_def)

lemma firstAccepted_out [simp]:
  "firstAccepted (p\<lparr>proc_out := x\<rparr>) cs = firstAccepted p cs"
  by (induction cs) (auto simp: sanitizePath_def statIsDirectory_def split: option.split)

lemma selectWorkingDirectory_out [simp]:
  "selectWorkingDirectory (p\<lparr>proc_out := x\<rparr>) cwd = selectWorkingDirectory p cwd"
  by (simp add: selectWorkingDirectory_def candidates_def split: option.split)

lemma selectWorkingDirectory_returns:
  "proc_cwd p = Some d \<Longrightarrow> \<exists>w. selectWorkingDirectory p cwd = Inr w"
  by (cases "firstAccepted p (candidates p cwd d)") (simp_all add: selectWorkingDirectory_def)

text \<open>The context of the plain-text send returns whenever the key is a string and the
  current directory can be read.\<close>

lemma sendMessage_context_returns:
  assumes key: "setupApiKey p = Inr cfg"
    and url: "isCustomBaseUrl (baseUrl cfg) = Inr custom"
    and str: "apiKey cfg = JStr k"
    and dir: "proc_cwd p = Some d"
  shows "\<exists>a p1. sendMessage_context message resume cwd permissionMode model p = (Returns a, p1)"
proof -
  obtain w where w: "selectWorkingDirectory p cwd = Inr w"
    using selectWorkingDirectory_returns [OF dir] by blast
  let ?p1 = "p\<lparr>proc_out := proc_out p @ [MessageStart]\<rparr>"
  show ?thesis
    unfolding sendMessage_context_def
    using key url str w
    by (cases "proc_chdir ?p1 w"; cases resume)
       (auto simp: andThen_def compute_def emit_def chdir_def returns_def apiKeyPreview_def
          announceResume_def)
qed

lemma grows_deliverNative:
  assumes "\<And>a. ok (CallQuery a)" "\<And>v. ok (Message v)" "\<And>v. ok (Content v)"
    "\<And>v. ok (SessionId v)" "ok MessageEnd" "\<And>v. ok (Terminal v)"
  shows "grows ok (deliverNative args resume)"
  unfolding deliverNative_def
  by (intro grows_andThen grows_emit grows_compute assms)
     (auto intro!: grows_andThen grows_relayMessages grows_emit assms split: msg_stream.split)

lemma grows_query: "grows ok m \<Longrightarrow> proc_query (snd (m p)) = proc_query p"
  by (simp add: grows_def)

lemma fst_snd_run: "fst (m p) = r \<Longrightarrow> m p = (r, snd (m p))"
  by (cases "m p") simp

text \<open>The native delivery of a stream that ends without a message.\<close>

lemma deliverNative_quiet:
  assumes "proc_query p a = QuerySettles (AfterMs 0) (Inr (MsgStream [] Ends))"
  shows "proc_out (snd (tryCatch (deliverNative a None) reportFailure p))
           = proc_out p @ [CallQuery a, MessageEnd, Terminal (successRecord JNull)]"
  using assms
  by (simp add: deliverNative_def tryCatch_def andThen_def emit_def compute_def returns_def
        streamEnd_def)

text \<open>
  C1, as stated, fails: with the custom endpoint \<open>https://proxy.example.com/v1\<close> in
  the environment, the plain-text send makes the request of the native streaming path,
  \<^verbatim>\<open>query\<close>, and none to \<^verbatim>\<open>messages.create\<close>.
\<close>

theorem sendMessage_custom_counterexample:
  "setupApiKey demoKeyProc
     = Inr \<lparr>apiKey = JStr ''sk-ant-0123456789'',
            baseUrl = JStr ''https://proxy.example.com/v1'',
            apiKeySource = ''environment'', baseUrlSource = ''environment''\<rparr>
   \<and> isCustomBaseUrl (JStr ''https://proxy.example.com/v1'') = Inr True
   \<and> proc_out (snd (sendMessage (Some ''hello'') None (Some ''/home/u/proj'') None
                      (Some ''claude-opus-4'') demoKeyProc))
       = [MessageStart,
          CallQuery
            (QueryArgs (PromptText (Some ''hello''))
               \<lparr>opt_cwd = ''/home/u/proj'', opt_permissionMode = ''default'',
                opt_model = ''opus'', opt_maxTurns = 100,
                opt_additionalDirectories = [''/home/u/proj''],
                opt_canUseTool = False, opt_pathToClaudeCodeExecutable = None,
                opt_settingSources = [''user'', ''project'', ''local''],
                opt_resume = None\<rparr>),
          MessageEnd,
          Terminal (JObj [(''success'', JBool True), (''sessionId'', JNull)])]"
proof -
  let ?args = "QueryArgs (PromptText (Some ''hello''))
               \<lparr>opt_cwd = ''/home/u/proj'', opt_permissionMode = ''default'',
                opt_model = ''opus'', opt_maxTurns = 100,
                opt_additionalDirectories = [''/home/u/proj''],
                opt_canUseTool = False, opt_pathToClaudeCodeExecutable = None,
                opt_settingSources = [''user'', ''project'', ''local''],
                opt_resume = None\<rparr>"
  let ?ctx = "sendMessage_context (Some ''hello'') None (Some ''/home/u/proj'') None
                (Some ''claude-opus-4'')"
  let ?p1 = "snd (?ctx demoKeyProc)"
  have key: "setupApiKey demoKeyProc
     = Inr \<lparr>apiKey = JStr ''sk-ant-0123456789'',
            baseUrl = JStr ''https://proxy.example.com/v1'',
            apiKeySource = ''environment'', baseUrlSource = ''environment''\<rparr>"
    by code_simp
  have custom: "isCustomBaseUrl (JStr ''https://proxy.example.com/v1'') = Inr True"
    by code_simp
  have "fst (?ctx demoKeyProc) = Returns ?args"
    by code_simp
  then have ctx: "?ctx demoKeyProc = (Returns ?args, ?p1)"
    by (rule fst_snd_run)
  have out1: "proc_out ?p1 = [MessageStart]"
    using yields_sendMessage_context [of None] ctx
    by (simp add: yields_def resumingLine_def demoKeyProc_def demoProc_def)
  have "grows (\<lambda>e. True) ?ctx"
    by (rule grows_sendMessage_context) simp_all
  then have "proc_query ?p1 = proc_query demoKeyProc"
    by (rule grows_query)
  then have q: "proc_query ?p1 ?args = QuerySettles (AfterMs 0) (Inr (MsgStream [] Ends))"
    by (simp add: demoKeyProc_def demoProc_def)
  have "sendMessage (Some ''hello'') None (Some ''/home/u/proj'') None (Some ''claude-opus-4'')
          demoKeyProc = tryCatch (deliverNative ?args None) reportFailure ?p1"
    unfolding sendMessage_def using ctx by (rule tryCatch_andThen_Returns)
  then have "proc_out (snd (sendMessage (Some ''hello'') None (Some ''/home/u/proj'') None
                      (Some ''claude-opus-4'') demoKeyProc))
       = [MessageStart, CallQuery ?args, MessageEnd,
          Terminal (JObj [(''success'', JBool True), (''sessionId'', JNull)])]"
    using deliverNative_quiet [OF q] out1 by (simp add: successRecord_def)
  with key custom show ?thesis
    by blast
qed

text \<open>
  C1, amended. The plain-text send never makes the request of the non-streaming
  fallback, whatever the endpoint. When the resolved endpoint is custom, the key is a
  string and the current directory can be read, it makes the request of the native
  streaming path: after \<^verbatim>\<open>[MESSAGE_START]\<close> and the \<^verbatim>\<open>[RESUMING]\<close> line of a resumed
  session comes the call of \<^verbatim>\<open>query\<close>, and no other request follows.
\<close>

theorem sendMessage_native_only:
  "proc_out p = [] \<longrightarrow>
     (\<forall>c. CallCreate c \<notin> set (proc_out (snd (sendMessage message resume cwd permissionMode
                                                 model p))))
   \<and> (setupApiKey p = Inr cfg \<and> isCustomBaseUrl (baseUrl cfg) = Inr True
      \<and> apiKey cfg = JStr k \<and> proc_cwd p = Some d \<longrightarrow>
        (\<exists>a evs. proc_out (snd (sendMessage message resume cwd permissionMode model p))
                    = MessageStart # resumingLine resume @ CallQuery a # evs
                \<and> list_all (\<lambda>e. \<not> isCall e) evs))"
proof (intro impI conjI)
  assume start: "proc_out p = []"
  let ?run = "sendMessage message resume cwd permissionMode model"
  have "grows (\<lambda>e. \<forall>c. e \<noteq> CallCreate c) ?run"
    unfolding sendMessage_def
    by (intro grows_tryCatch grows_andThen grows_sendMessage_context grows_deliverNative
          grows_reportFailure) simp_all
  from growsD [OF this, of p] start obtain evs where
    "proc_out (snd (?run p)) = evs" "list_all (\<lambda>e. \<forall>c. e \<noteq> CallCreate c) evs"
    by auto
  then show "\<forall>c. CallCreate c \<notin> set (proc_out (snd (?run p)))"
    by (auto simp: list_all_iff)
next
  assume start: "proc_out p = []"
    and custom: "setupApiKey p = Inr cfg \<and> isCustomBaseUrl (baseUrl cfg) = Inr True
      \<and> apiKey cfg = JStr k \<and> proc_cwd p = Some d"
  let ?ctx = "sendMessage_context message resume cwd permissionMode model"
  from custom sendMessage_context_returns [of p cfg True k d message resume cwd permissionMode model]
  obtain a p1 where ctx: "?ctx p = (Returns a, p1)"
    by blast
  with yields_sendMessage_context [of resume message cwd permissionMode model] start
  have out1: "proc_out p1 = MessageStart # resumingLine resume"
    by (simp add: yields_def)
  have run: "sendMessage message resume cwd permissionMode model p
      = tryCatch (deliverNative a resume) reportFailure p1"
    unfolding sendMessage_def using ctx by (rule tryCatch_andThen_Returns)
  from deliverNative_out [of a resume p1] out1
  show "\<exists>a evs. proc_out (snd (sendMessage message resume cwd permissionMode model p))
                    = MessageStart # resumingLine resume @ CallQuery a # evs
                \<and> list_all (\<lambda>e. \<not> isCall e) evs"
    unfolding run by auto
qed

theorem sendMessage_native_only_witness:
  "CallCreate \<lparr>client_apiKey = Some ''sk-ant-0123456789'',
               client_baseURL = Some ''https://proxy.example.com/v1'',
               create_model = ''claude-opus-4'', create_max_tokens = 8192,
               create_messages = [Turn ''user'' (JArr [JObj [(''type'', JStr ''text''),
                                                            (''text'', JStr ''hello'')]])]\<rparr>
     \<notin> set (proc_out (snd (sendMessage (Some ''hello'') None (Some ''/home/u/proj'') None
                              (Some ''claude-opus-4'') demoKeyProc)))
   \<and> (\<exists>a evs. proc_out (snd (sendMessage (Some ''hello'') None (Some ''/home/u/proj'') None
                                (Some ''claude-opus-4'') demoKeyProc))
                 = MessageStart # CallQuery a # evs)"
proof -
  let ?cfg = "\<lparr>apiKey = JStr ''sk-ant-0123456789'',
            baseUrl = JStr ''https://proxy.example.com/v1'',
            apiKeySource = ''environment'', baseUrlSource = ''environment''\<rparr>"
  have start: "proc_out demoKeyProc = []"
    by (simp add: demoKeyProc_def demoProc_def)
  have key: "setupApiKey demoKeyProc = Inr ?cfg"
    by code_simp
  have custom: "isCustomBaseUrl (baseUrl ?cfg) = Inr True"
    by code_simp
  have dir: "proc_cwd demoKeyProc = Some ''/home/u/proj''"
    by (simp add: demoKeyProc_def demoProc_def)
  from sendMessage_native_only [of demoKeyProc "Some ''hello''" None "Some ''/home/u/proj''" None
      "Some ''claude-opus-4''" ?cfg "''sk-ant-0123456789''" "''/home/u/proj''"]
    start key custom dir
  show ?thesis
    by (simp add: resumingLine_def) blast
qed

text \<open>The branch of an error response, run.\<close>

lemma reportApiError_run:
  "reportApiError sessionId modelId response p =
     (Returns (),
      p\<lparr>proc_uuids := Suc (Suc (Suc (proc_uuids p))),
        proc_out := proc_out p @
          [Message (assistantMessage (proc_randomUUID p (proc_uuids p)) modelId ''error''
                      (usageOf 0 0)
                      [JObj [(''type'', JStr ''text''),
                             (''text'', JStr (diagnosticText (errorMsgOf response)))]]
                      sessionId (proc_randomUUID p (Suc (proc_uuids p)))),
           Content (JStr (diagnosticText (errorMsgOf response))),
           Message (resultMessage ''error'' True (diagnosticText (errorMsgOf response)) sessionId
                      (usageOf 0 0) (proc_randomUUID p (Suc (Suc (proc_uuids p))))),
           MessageEnd,
           Terminal (failureRecord (errorMsgOf response))]\<rparr>)"
  by (simp add: reportApiError_def Let_def andThen_def randomUUID_def emit_def
        diagnosticText_def)

text \<open>The request of the fallback and what follows it, with the \<^verbatim>\<open>catch\<close>: the request
  first, no request after it.\<close>

lemma create_out:
  "\<exists>evs. proc_out (snd (tryCatch
              (andThen (emit (CallCreate a))
                 (\<lambda>u. andThen (awaitCreate a)
                    (\<lambda>response.
                       if isErrorResponse response
                       then reportApiError sessionId modelId response
                       else reportResponse sessionId cwd modelId response)))
              reportFailure p))
            = proc_out p @ CallCreate a # evs
         \<and> list_all (\<lambda>e. \<not> isCall e) evs"
proof -
  let ?p2 = "p\<lparr>proc_out := proc_out p @ [CallCreate a]\<rparr>"
  let ?rest = "andThen (awaitCreate a)
                    (\<lambda>response.
                       if isErrorResponse response
                       then reportApiError sessionId modelId response
                       else reportResponse sessionId cwd modelId response)"
  have run: "tryCatch (andThen (emit (CallCreate a)) (\<lambda>u. ?rest)) reportFailure p
      = tryCatch ?rest reportFailure ?p2"
    by (rule tryCatch_andThen_Returns) (simp add: emit_def)
  have "grows (\<lambda>e. \<not> isCall e) (tryCatch ?rest reportFailure)"
    by (intro grows_tryCatch grows_andThen grows_awaitCreate grows_reportFailure grows_if
          grows_reportApiError grows_reportResponse) simp_all
  from growsD [OF this, of ?p2] obtain evs where
    "proc_out (snd (tryCatch ?rest reportFailure ?p2)) = proc_out ?p2 @ evs"
    "list_all (\<lambda>e. \<not> isCall e) evs"
    by blast
  then show ?thesis
    unfolding run by auto
qed

lemma create_error_run:
  assumes "proc_create p a = CreateResolves response" "isErrorResponse response"
  shows "tryCatch
           (andThen (emit (CallCreate a))
              (\<lambda>u. andThen (awaitCreate a)
                 (\<lambda>response.
                    if isErrorResponse response
                    then reportApiError sessionId modelId response
                    else reportResponse sessionId cwd modelId response)))
           reportFailure p
         = reportApiError sessionId modelId response (p\<lparr>proc_out := proc_out p @ [CallCreate a]\<rparr>)"
  using assms
  by (simp add: tryCatch_def andThen_def emit_def awaitCreate_def reportApiError_run)

text \<open>
  C6. On the fallback path, when the request has been made and the remote answers with
  a body that has an \<open>error\<close> field or the type \<open>error\<close>, the operation returns (nothing
  is thrown on), and its output ends with: the assistant \<^verbatim>\<open>[MESSAGE]\<close> whose message
  has the stop reason \<open>error\<close> and the diagnostic text as its content, the
  \<^verbatim>\<open>[CONTENT]\<close> line of that text, the result \<^verbatim>\<open>[MESSAGE]\<close> with \<open>is_error\<close> true,
  \<^verbatim>\<open>[MESSAGE_END]\<close>, and the closing record of failure with the error message.
\<close>

theorem fallback_error_response:
  "proc_out p = []
   \<and> CallCreate args \<in> set (proc_out (snd (sendMessageWithAnthropicSDK message resume cwd
                                              permissionMode model key url p)))
   \<and> proc_create p args = CreateResolves response
   \<and> isErrorResponse response \<longrightarrow>
     fst (sendMessageWithAnthropicSDK message resume cwd permissionMode model key url p)
       = Returns ()
   \<and> (\<exists>before a r.
         proc_out (snd (sendMessageWithAnthropicSDK message resume cwd permissionMode model
                          key url p))
           = before @ [Message a,
                       Content (JStr (diagnosticText (errorMsgOf response))),
                       Message r,
                       MessageEnd,
                       Terminal (failureRecord (errorMsgOf response))]
       \<and> readProp a ''type'' = JStr ''assistant''
       \<and> readProp (readProp a ''message'') ''stop_reason'' = JStr ''error''
       \<and> readProp (readProp a ''message'') ''content''
           = JArr [JObj [(''type'', JStr ''text''),
                         (''text'', JStr (diagnosticText (errorMsgOf response)))]]
       \<and> readProp r ''type'' = JStr ''result''
       \<and> readProp r ''is_error'' = JBool True)"
proof
  assume a: "proc_out p = []
   \<and> CallCreate args \<in> set (proc_out (snd (sendMessageWithAnthropicSDK message resume cwd
                                              permissionMode model key url p)))
   \<and> proc_create p args = CreateResolves response
   \<and> isErrorResponse response"
  let ?ctx = "sendMessageWithAnthropicSDK_context message resume cwd permissionMode model key url"
  let ?run = "sendMessageWithAnthropicSDK message resume cwd permissionMode model key url p"
  have g: "grows (\<lambda>e. \<not> isCall e) ?ctx"
    by (rule grows_sdk_context) simp_all
  obtain r0 p1 where cp: "?ctx p = (r0, p1)" by (cases "?ctx p")
  from growsD [OF g, of p] cp a obtain evs0 where
    p1: "proc_out p1 = evs0" "list_all (\<lambda>e. \<not> isCall e) evs0" "proc_create p1 = proc_create p"
    by auto
  show "fst ?run = Returns ()
   \<and> (\<exists>before a r.
         proc_out (snd ?run)
           = before @ [Message a,
                       Content (JStr (diagnosticText (errorMsgOf response))),
                       Message r,
                       MessageEnd,
                       Terminal (failureRecord (errorMsgOf response))]
       \<and> readProp a ''type'' = JStr ''assistant''
       \<and> readProp (readProp a ''message'') ''stop_reason'' = JStr ''error''
       \<and> readProp (readProp a ''message'') ''content''
           = JArr [JObj [(''type'', JStr ''text''),
                         (''text'', JStr (diagnosticText (errorMsgOf response)))]]
       \<and> readProp r ''type'' = JStr ''result''
       \<and> readProp r ''is_error'' = JBool True)"
  proof (cases r0)
    case (Throws e)
    then have "?run = reportFailure e p1"
      unfolding sendMessageWithAnthropicSDK_def using cp by (simp add: tryCatch_andThen_Throws)
    then have "proc_out (snd ?run) = evs0 @ [Terminal (failureRecord (errMessage e))]"
      using p1 by (simp add: reportFailure_def emit_def)
    with a p1 show ?thesis
      by (auto simp: list_all_iff)
  next
    case NeverReturns
    then have "?run = (NeverReturns, p1)"
      unfolding sendMessageWithAnthropicSDK_def using cp
      by (simp add: tryCatch_andThen_NeverReturns)
    with a p1 show ?thesis
      by (auto simp: list_all_iff)
  next
    case (Returns x)
    obtain sessionId modelId c where x: "x = (sessionId, modelId, c)"
      by (cases x) auto
    let ?dispatch = "andThen (emit (CallCreate c))
              (\<lambda>u. andThen (awaitCreate c)
                 (\<lambda>response.
                    if isErrorResponse response
                    then reportApiError sessionId modelId response
                    else reportResponse sessionId cwd modelId response))"
    have "?ctx p = (Returns x, p1)"
      using cp Returns by simp
    then have "?run = tryCatch
        ((\<lambda>(sessionId, modelId, args).
             andThen (emit (CallCreate args))
               (\<lambda>u. andThen (awaitCreate args)
                  (\<lambda>response.
                     if isErrorResponse response
                     then reportApiError sessionId modelId response
                     else reportResponse sessionId cwd modelId response))) x)
        reportFailure p1"
      unfolding sendMessageWithAnthropicSDK_def by (rule tryCatch_andThen_Returns)
    then have run: "?run = tryCatch ?dispatch reportFailure p1"
      by (simp add: x)
    from create_out [of c sessionId modelId cwd p1] obtain evs where
      "proc_out (snd ?run) = evs0 @ CallCreate c # evs" "list_all (\<lambda>e. \<not> isCall e) evs"
      unfolding run p1 by blast
    with a p1 have same: "args = c"
      by (auto simp: list_all_iff)
    from a same p1 have "proc_create p1 c = CreateResolves response" "isErrorResponse response"
      by simp_all
    from create_error_run [OF this, of sessionId modelId cwd]
    have "?run = reportApiError sessionId modelId response
                   (p1\<lparr>proc_out := proc_out p1 @ [CallCreate c]\<rparr>)"
      unfolding run .
    then show ?thesis
      unfolding reportApiError_run
      by (simp add: assistantMessage_def resultMessage_def)
  qed
qed

theorem fallback_error_response_witness:
  "fst (sendMessageWithAnthropicSDK (Some ''hello'') None (Some ''/home/u/proj'') None None
          (Some ''sk'') (Some ''https://proxy.example.com'') demoRefusedProc) = Returns ()
   \<and> last (proc_out (snd (sendMessageWithAnthropicSDK (Some ''hello'') None
                            (Some ''/home/u/proj'') None None (Some ''sk'')
                            (Some ''https://proxy.example.com'') demoRefusedProc)))
       = Terminal (JObj [(''success'', JBool False), (''error'', JStr ''invalid x-api-key'')])"
proof -
  let ?args = "\<lparr>client_apiKey = Some ''sk'',
               client_baseURL = Some ''https://proxy.example.com'',
               create_model = ''claude-sonnet-4-5'', create_max_tokens = 8192,
               create_messages = [Turn ''user'' (JArr [JObj [(''type'', JStr ''text''),
                                                            (''text'', JStr ''hello'')]])]\<rparr>"
  let ?ctx = "sendMessageWithAnthropicSDK_context (Some ''hello'') None (Some ''/home/u/proj'')
                None None (Some ''sk'') (Some ''https://proxy.example.com'')"
  let ?run = "sendMessageWithAnthropicSDK (Some ''hello'') None (Some ''/home/u/proj'') None None
                (Some ''sk'') (Some ''https://proxy.example.com'') demoRefusedProc"
  let ?p1 = "snd (?ctx demoRefusedProc)"
  have start: "proc_out demoRefusedProc = []"
    by (simp add: demoRefusedProc_def demoProc_def)
  have "fst (?ctx demoRefusedProc) = Returns (''uuid-'', ''claude-sonnet-4-5'', ?args)"
    by code_simp
  then have ctx: "?ctx demoRefusedProc = (Returns (''uuid-'', ''claude-sonnet-4-5'', ?args), ?p1)"
    by (rule fst_snd_run)
  have "?run = tryCatch
        ((\<lambda>(sessionId, modelId, args).
             andThen (emit (CallCreate args))
               (\<lambda>u. andThen (awaitCreate args)
                  (\<lambda>response.
                     if isErrorResponse response
                     then reportApiError sessionId modelId response
                     else reportResponse sessionId (Some ''/home/u/proj'') modelId response)))
           (''uuid-'', ''claude-sonnet-4-5'', ?args))
        reportFailure ?p1"
    unfolding sendMessageWithAnthropicSDK_def using ctx by (rule tryCatch_andThen_Returns)
  then have run: "?run = tryCatch
        (andThen (emit (CallCreate ?args))
               (\<lambda>u. andThen (awaitCreate ?args)
                  (\<lambda>response.
                     if isErrorResponse response
                     then reportApiError ''uuid-'' ''claude-sonnet-4-5'' response
                     else reportResponse ''uuid-'' (Some ''/home/u/proj'') ''claude-sonnet-4-5''
                            response)))
        reportFailure ?p1"
    by simp
  from create_out [of ?args "''uuid-''" "''claude-sonnet-4-5''" "Some ''/home/u/proj''" ?p1]
  have called: "CallCreate ?args \<in> set (proc_out (snd ?run))"
    unfolding run by auto
  have answer: "proc_create demoRefusedProc ?args = CreateResolves demoErrorResponse"
    by (simp add: demoRefusedProc_def)
  have shape: "isErrorResponse demoErrorResponse"
    by (simp add: isErrorResponse_def demoErrorResponse_def)
  have msg: "errorMsgOf demoErrorResponse = ''invalid x-api-key''"
    by (simp add: errorMsgOf_def demoErrorResponse_def orElse_def)
  from fallback_error_response [of demoRefusedProc ?args "Some ''hello''" None
      "Some ''/home/u/proj''" None None "Some ''sk''" "Some ''https://proxy.example.com''"
      demoErrorResponse] start called answer shape
  obtain before a r where
    "fst ?run = Returns ()"
    "proc_out (snd ?run)
       = before @ [Message a, Content (JStr (diagnosticText (errorMsgOf demoErrorResponse))),
                   Message r, MessageEnd, Terminal (failureRecord (errorMsgOf demoErrorResponse))]"
    by blast
  then show ?thesis
    by (simp add: msg failureRecord_def)
qed

end
